theory Spec2Isabelle
  imports Complex_Main
begin

section \<open>Values exchanged with the outside world\<close>

text \<open>
  The agent of \<^verbatim>\<open>hardware/main.py\<close> is a Python class \<^verbatim>\<open>TollChainHardware\<close>.
  Its methods are embedded as functions over a record of the object's attributes.
  What the outside world answers (the clock, the backend, the event channel, the GPIO
  driver) is an explicit argument of every function, and everything a method does to
  the outside world is returned as a list of events, in program order.

  Clock readings and durations are Python floats. A finite float is the real number it
  stands for; the one float operation whose rounding the program depends on, the
  subtraction in the cooldown test, is modelled with its rounding (section
  ``Float subtraction'').
\<close>

text \<open>A decoded JSON document, as \<^verbatim>\<open>json.loads\<close> and \<^verbatim>\<open>response.json()\<close> return it,
  and as \<^verbatim>\<open>json.dumps\<close> and \<^verbatim>\<open>requests.post(json=...)\<close> take it. An object keeps its
  members in document order.\<close>

datatype json =
    JNull
  | JBool bool
  | JNum real
  | JStr string
  | JArr "json list"
  | JObj "(string \<times> json) list"

text \<open>A text received from the network either decodes as JSON or does not.\<close>

datatype payload = Malformed | Parsed json

text \<open>The exceptions the methods can meet.\<close>

datatype exn =
    RequestException
  | JSONDecodeError
  | AttributeError
  | ConnectionClosed
  | ConnectError
  | RecvError
  | UnicodeDecodeError
  | SerialException
  | CameraError
  | GpioError
  | SleepArgError

text \<open>Python's truth value of a decoded JSON value (\<^verbatim>\<open>if v:\<close>).\<close>

fun truthy :: "json \<Rightarrow> bool" where
  "truthy JNull = False"
| "truthy (JBool b) = b"
| "truthy (JNum x) = (x \<noteq> 0)"
| "truthy (JStr s) = (s \<noteq> [])"
| "truthy (JArr xs) = (xs \<noteq> [])"
| "truthy (JObj kvs) = (kvs \<noteq> [])"

text \<open>\<^verbatim>\<open>d.get(k, dflt)\<close>: only a dict has \<^verbatim>\<open>get\<close>; of a repeated member the decoder
  keeps the last.\<close>

definition dict_get :: "json \<Rightarrow> string \<Rightarrow> json \<Rightarrow> exn + json" where
  "dict_get d k dflt =
     (case d of
        JObj kvs \<Rightarrow> Inr (case map_of (rev kvs) k of None \<Rightarrow> dflt | Some v \<Rightarrow> v)
      | _ \<Rightarrow> Inl AttributeError)"

text \<open>The argument \<^verbatim>\<open>time.sleep\<close> accepts: a number (a bool is an int) that is not
  negative (\<^verbatim>\<open>ValueError\<close>) and whose nanoseconds fit a signed 64-bit integer
  (\<^verbatim>\<open>OverflowError\<close> from \<open>2^63\<close> ns on); anything else is a \<^verbatim>\<open>TypeError\<close>.\<close>

fun sleep_secs :: "json \<Rightarrow> real option" where
  "sleep_secs (JNum x) = (if 0 \<le> x \<and> x * 10 ^ 9 < 2 ^ 63 then Some x else None)"
| "sleep_secs (JBool b) = Some (if b then 1 else 0)"
| "sleep_secs _ = None"

section \<open>Float subtraction\<close>

text \<open>Python's \<^verbatim>\<open>a - b\<close> on floats is the IEEE 754 binary64 subtraction: the exact
  difference rounded to the nearest number with 53 significant bits, ties to the even
  one, an infinity when that leaves the range. \<open>round_even\<close> rounds to the nearest
  integer, ties to even; \<open>binade a\<close> is the exponent \<open>e\<close> with
  \<open>2^e \<le> a < 2^(e+1)\<close> of a positive \<open>a\<close>; below \<open>2^-1022\<close> the spacing stays that
  of the subnormal numbers.\<close>

definition round_even :: "real \<Rightarrow> int" where
  "round_even x =
     (let f = \<lfloor>x\<rfloor>; r = x - of_int f
      in if r < 1/2 then f else if 1/2 < r then f + 1 else if even f then f else f + 1)"

function binade :: "real \<Rightarrow> int" where
  "binade a =
     (if a \<le> 0 then 0
      else if a < 1 then binade (2 * a) - 1
      else if 2 \<le> a then binade (a / 2) + 1
      else 0)"
  by pat_completeness auto
termination
proof (relation "measure (\<lambda>a. if 1 \<le> a then nat \<lfloor>a\<rfloor> else nat \<lceil>1 / a\<rceil>)")
  show "wf (measure (\<lambda>a::real. if 1 \<le> a then nat \<lfloor>a\<rfloor> else nat \<lceil>1 / a\<rceil>))" by simp
next
  fix a :: real
  assume a: "\<not> a \<le> 0" "a < 1"
  have "1 / a > 1" using a by simp
  then have c: "\<lceil>1 / a\<rceil> \<ge> 2" by linarith
  show "(2 * a, a) \<in> measure (\<lambda>a. if 1 \<le> a then nat \<lfloor>a\<rfloor> else nat \<lceil>1 / a\<rceil>)"
  proof (cases "1 \<le> 2 * a")
    case True
    then have "2 * a < 2" using a by simp
    with True have "\<lfloor>2 * a\<rfloor> = 1" by linarith
    then show ?thesis using a c True by simp
  next
    case False
    have "1 / (2 * a) = (1 / a) / 2" by simp
    then have "\<lceil>1 / (2 * a)\<rceil> < \<lceil>1 / a\<rceil>" using c by linarith
    then show ?thesis using a False c by simp
  qed
next
  fix a :: real
  assume a: "\<not> a \<le> 0" "\<not> a < 1" "2 \<le> a"
  then have "1 \<le> a / 2" by simp
  moreover have "\<lfloor>a / 2\<rfloor> < \<lfloor>a\<rfloor>" using a by linarith
  ultimately show "(a / 2, a) \<in> measure (\<lambda>a. if 1 \<le> a then nat \<lfloor>a\<rfloor> else nat \<lceil>1 / a\<rceil>)"
    using a by simp
qed

declare binade.simps [simp del]

text \<open>The result of a float operation on finite floats.\<close>

datatype fl = Finite real | PosInf | NegInf

definition float_round :: "real \<Rightarrow> fl" where
  "float_round x =
     (if x = 0 then Finite 0
      else
        (let e = max (binade \<bar>x\<bar>) (- 1022);
             q = 2 powi (e - 52);
             y = of_int (round_even (x / q)) * q
         in if 2 powi 1024 \<le> y then PosInf
            else if y \<le> - (2 powi 1024) then NegInf
            else Finite y))"

definition float_sub :: "real \<Rightarrow> real \<Rightarrow> fl" where
  "float_sub a b = float_round (a - b)"

text \<open>\<^verbatim>\<open>d < c\<close> for a float \<open>d\<close> and the integer \<open>c\<close> of the cooldown, which Python
  compares exactly.\<close>

fun fl_less :: "fl \<Rightarrow> real \<Rightarrow> bool" where
  "fl_less (Finite d) c = (d < c)"
| "fl_less PosInf c = False"
| "fl_less NegInf c = True"

section \<open>Events\<close>

datatype level = INFO | WARNING | ERROR

text \<open>What a method does to the outside world. \<open>HttpPost d\<close> is
  \<^verbatim>\<open>requests.post(BACKEND_URL + "/api/hardware/scan", json=d, timeout=5)\<close>;
  \<open>TimeSleep\<close> is the blocking \<^verbatim>\<open>time.sleep\<close>, \<open>AsyncSleep\<close> is
  \<^verbatim>\<open>await asyncio.sleep\<close>; \<open>WsSend m\<close> is a \<^verbatim>\<open>websocket.send(json.dumps(m))\<close> that
  returned, \<open>WsSendFailed m\<close> one that raised; \<open>Log\<close> carries the message without
  the text of the exception, which is its last argument.\<close>

datatype event =
    GpioOut nat bool
  | TimeSleep real
  | AsyncSleep real
  | HttpPost json
  | WsConnect
  | WsSend json
  | WsSendFailed json
  | WsRecv
  | SerialInWaiting
  | SerialReadline
  | CameraRead
  | Log level string "exn option"

text \<open>The sensors' drivers. A serial port is the list of what its next reads will
  find: a line of text (as \<^verbatim>\<open>readline().decode('utf-8')\<close> gives it, code points below
  256), bytes that are not UTF-8, or a failing device. A camera is the list of its next
  frames: none captured, a failing device, or the payloads \<^verbatim>\<open>pyzbar.decode\<close> finds.\<close>

datatype rx = RxLine string | RxInvalidUtf8 | RxIOError

datatype qr = QrText string | QrInvalidUtf8

datatype frame = NoFrame | FrameError | Frame "qr list"

datatype ws_conn = WsConn

datatype http_outcome = Unreachable | Response int payload

datatype recv_outcome = RecvClosed | RecvFailed | RecvMessage payload

text \<open>The attributes of \<^verbatim>\<open>TollChainHardware\<close>; a device that failed to initialise
  is \<open>None\<close>, as is a channel that is not connected.\<close>

record hardware =
  rfid_serial :: "rx list option"
  camera :: "frame list option"
  websocket :: "ws_conn option"
  is_running :: bool
  last_scan_time :: "string \<rightharpoonup> real"
  scan_cooldown :: real

text \<open>The configuration read from the process environment, and what the outside
  world answers during one call: \<open>now\<close> is \<^verbatim>\<open>time.time()\<close>, \<open>http\<close> what
  \<^verbatim>\<open>requests.post\<close> does (\<open>Unreachable\<close>: it raises, on a timeout or a connection
  failure), \<open>ws_connect_ok\<close> whether \<^verbatim>\<open>websockets.connect\<close> returns, \<open>ws_send_ok\<close>
  whether \<^verbatim>\<open>websocket.send\<close> returns, \<open>ws_recv\<close> what \<^verbatim>\<open>websocket.recv\<close> does, and
  \<open>gpio_ok\<close> whether \<^verbatim>\<open>GPIO.output\<close> returns.\<close>

record world =
  TOLL_BOOTH_ID :: string
  LOCATION :: "real \<times> real"
  now :: real
  http :: http_outcome
  ws_connect_ok :: bool
  ws_send_ok :: bool
  ws_recv :: recv_outcome
  gpio_ok :: bool

definition LED_GREEN :: nat where "LED_GREEN = 18"
definition LED_RED :: nat where "LED_RED = 24"
definition LED_YELLOW :: nat where "LED_YELLOW = 25"
definition BUZZER_PIN :: nat where "BUZZER_PIN = 23"

definition location_json :: "world \<Rightarrow> json" where
  "location_json w = JObj [(''lat'', JNum (fst (LOCATION w))), (''lng'', JNum (snd (LOCATION w)))]"

text \<open>\<^verbatim>\<open>__init__\<close>, given what the two device set-ups produced.\<close>

definition init :: "rx list option \<Rightarrow> frame list option \<Rightarrow> hardware" where
  "init port cam =
     \<lparr> rfid_serial = port, camera = cam, websocket = None, is_running = False,
       last_scan_time = Map.empty, scan_cooldown = 5 \<rparr>"

section \<open>Outputs\<close>

definition set_status_led :: "world \<Rightarrow> json \<Rightarrow> bool \<Rightarrow> event list" where
  "set_status_led w color state =
     (let pin = (if color = JStr ''green'' then Some LED_GREEN
                 else if color = JStr ''red'' then Some LED_RED
                 else if color = JStr ''yellow'' then Some LED_YELLOW
                 else None)
      in case pin of
           None \<Rightarrow> []
         | Some p \<Rightarrow>
             if gpio_ok w then [GpioOut p state]
             else [Log ERROR ''Error setting LED'' (Some GpioError)])"

definition buzz :: "world \<Rightarrow> json \<Rightarrow> event list" where
  "buzz w duration =
     (if \<not> gpio_ok w then [Log ERROR ''Error activating buzzer'' (Some GpioError)]
      else case sleep_secs duration of
             None \<Rightarrow> [GpioOut BUZZER_PIN True,
                      Log ERROR ''Error activating buzzer'' (Some SleepArgError)]
           | Some d \<Rightarrow> [GpioOut BUZZER_PIN True, TimeSleep d, GpioOut BUZZER_PIN False])"

section \<open>Sensors\<close>

text \<open>The code points below 256 that \<^verbatim>\<open>str.strip()\<close> removes.\<close>

definition py_isspace :: "char \<Rightarrow> bool" where
  "py_isspace c =
     (let n = (of_char c :: nat)
      in (9 \<le> n \<and> n \<le> 13) \<or> (28 \<le> n \<and> n \<le> 32) \<or> n = 133 \<or> n = 160)"

definition py_strip :: "string \<Rightarrow> string" where
  "py_strip s = rev (dropWhile py_isspace (rev (dropWhile py_isspace s)))"

definition read_rfid :: "hardware \<Rightarrow> hardware \<times> string option \<times> event list" where
  "read_rfid s =
     (case rfid_serial s of
        None \<Rightarrow> (s, None, [])
      | Some port \<Rightarrow>
          (case port of
             [] \<Rightarrow> (s, None, [SerialInWaiting])
           | RxIOError # rest \<Rightarrow>
               (s\<lparr>rfid_serial := Some rest\<rparr>, None,
                [SerialInWaiting, Log ERROR ''Error reading RFID'' (Some SerialException)])
           | RxInvalidUtf8 # rest \<Rightarrow>
               (s\<lparr>rfid_serial := Some rest\<rparr>, None,
                [SerialInWaiting, SerialReadline,
                 Log ERROR ''Error reading RFID'' (Some UnicodeDecodeError)])
           | RxLine l # rest \<Rightarrow>
               (let data = py_strip l in
                if data \<noteq> [] \<and> length data > 0 then
                  (let vehicle_id = filter (\<lambda>c. c \<noteq> CHR 0x0D \<and> c \<noteq> CHR 0x0A) data
                   in (s\<lparr>rfid_serial := Some rest\<rparr>, Some vehicle_id,
                       [SerialInWaiting, SerialReadline,
                        Log INFO (''RFID read: '' @ vehicle_id) None]))
                else (s\<lparr>rfid_serial := Some rest\<rparr>, None,
                      [SerialInWaiting, SerialReadline]))))"

definition scan_qr_code :: "hardware \<Rightarrow> hardware \<times> string option \<times> event list" where
  "scan_qr_code s =
     (case camera s of
        None \<Rightarrow> (s, None, [])
      | Some frames \<Rightarrow>
          (case frames of
             [] \<Rightarrow> (s, None, [CameraRead])
           | NoFrame # rest \<Rightarrow> (s\<lparr>camera := Some rest\<rparr>, None, [CameraRead])
           | FrameError # rest \<Rightarrow>
               (s\<lparr>camera := Some rest\<rparr>, None,
                [CameraRead, Log ERROR ''Error scanning QR code'' (Some CameraError)])
           | Frame qr_codes # rest \<Rightarrow>
               (case qr_codes of
                  [] \<Rightarrow> (s\<lparr>camera := Some rest\<rparr>, None, [CameraRead])
                | QrInvalidUtf8 # _ \<Rightarrow>
                    (s\<lparr>camera := Some rest\<rparr>, None,
                     [CameraRead,
                      Log ERROR ''Error scanning QR code'' (Some UnicodeDecodeError)])
                | QrText vehicle_id # _ \<Rightarrow>
                    (s\<lparr>camera := Some rest\<rparr>, Some vehicle_id,
                     [CameraRead, Log INFO (''QR code scanned: '' @ vehicle_id) None]))))"

section \<open>The event channel\<close>

definition hardware_status :: "hardware \<Rightarrow> world \<Rightarrow> json" where
  "hardware_status s w =
     JObj [(''type'', JStr ''hardware_status''),
           (''tollBoothId'', JStr (TOLL_BOOTH_ID w)),
           (''status'', JStr ''active''),
           (''location'', location_json w),
           (''timestamp'', JNum (now w)),
           (''hardware'', JObj [(''rfid'', JBool (rfid_serial s \<noteq> None)),
                                (''camera'', JBool (camera s \<noteq> None)),
                                (''gpio'', JBool True)])]"

text \<open>\<^verbatim>\<open>await self.websocket.send(json.dumps(m))\<close>: the events, and the exception
  when it raises.\<close>

definition ws_send :: "world \<Rightarrow> json \<Rightarrow> event list \<times> exn option" where
  "ws_send w m =
     (if ws_send_ok w then ([WsSend m], None) else ([WsSendFailed m], Some ConnectionClosed))"

definition send_hardware_status :: "hardware \<Rightarrow> world \<Rightarrow> event list" where
  "send_hardware_status s w =
     (case websocket s of
        None \<Rightarrow> []
      | Some c \<Rightarrow>
          (case ws_send w (hardware_status s w) of
             (tr, None) \<Rightarrow> tr @ [Log INFO ''Hardware status sent to backend'' None]
           | (tr, Some e) \<Rightarrow> tr @ [Log ERROR ''Failed to send hardware status'' (Some e)]))"

definition connect_websocket :: "hardware \<Rightarrow> world \<Rightarrow> hardware \<times> event list" where
  "connect_websocket s w =
     (if ws_connect_ok w then
        (let s1 = s\<lparr>websocket := Some WsConn\<rparr>
         in (s1, [WsConnect, Log INFO ''Connected to backend WebSocket'' None]
                 @ send_hardware_status s1 w))
      else (s\<lparr>websocket := None\<rparr>,
            [WsConnect, Log ERROR ''Failed to connect to WebSocket'' (Some ConnectError)]))"

section \<open>Processing one scan\<close>

definition scan_data :: "hardware \<Rightarrow> world \<Rightarrow> string \<Rightarrow> real \<Rightarrow> json" where
  "scan_data s w vehicle_id current_time =
     JObj [(''vehicleId'', JStr vehicle_id),
           (''tollBoothId'', JStr (TOLL_BOOTH_ID w)),
           (''location'', location_json w),
           (''timestamp'', JNum current_time),
           (''scanType'', JStr (if rfid_serial s \<noteq> None then ''rfid'' else ''qr''))]"

definition vehicle_detected :: "string \<Rightarrow> real \<Rightarrow> json" where
  "vehicle_detected vehicle_id current_time =
     JObj [(''type'', JStr ''vehicle_detected''),
           (''vehicleId'', JStr vehicle_id),
           (''registered'', JBool True),
           (''timestamp'', JNum current_time)]"

definition unregistered_vehicle :: "string \<Rightarrow> real \<Rightarrow> json" where
  "unregistered_vehicle vehicle_id current_time =
     JObj [(''type'', JStr ''unregistered_vehicle''),
           (''vehicleId'', JStr vehicle_id),
           (''timestamp'', JNum current_time)]"

text \<open>The notification of either branch: \<^verbatim>\<open>if self.websocket: await
  self.websocket.send(...)\<close>.\<close>

definition notify :: "hardware \<Rightarrow> world \<Rightarrow> json \<Rightarrow> event list \<times> exn option" where
  "notify s w m = (case websocket s of None \<Rightarrow> ([], None) | Some c \<Rightarrow> ws_send w m)"

text \<open>The cooldown test that opens \<^verbatim>\<open>process_vehicle_scan\<close>, true when the method
  returns at once: \<^verbatim>\<open>current_time - self.last_scan_time[vehicle_id] < self.scan_cooldown\<close>,
  a float subtraction compared with the integer 5.\<close>

definition cooldown_active :: "hardware \<Rightarrow> string \<Rightarrow> real \<Rightarrow> bool" where
  "cooldown_active s vehicle_id current_time =
     (case last_scan_time s vehicle_id of
        None \<Rightarrow> False
      | Some seen \<Rightarrow> fl_less (float_sub current_time seen) (scan_cooldown s))"

text \<open>The statements after a response with status 200, up to the end of the
  \<^verbatim>\<open>try\<close> block or to the exception that leaves it.\<close>

definition on_verdict :: "hardware \<Rightarrow> world \<Rightarrow> string \<Rightarrow> real \<Rightarrow> payload \<Rightarrow> event list \<times> exn option" where
  "on_verdict s w vehicle_id current_time body =
     (case body of
        Malformed \<Rightarrow> ([], Some JSONDecodeError)
      | Parsed result \<Rightarrow>
          (case dict_get result ''registered'' (JBool False) of
             Inl e \<Rightarrow> ([], Some e)
           | Inr registered \<Rightarrow>
               (let (signal, sent) =
                  (if truthy registered then
                     (set_status_led w (JStr ''green'') True @ buzz w (JNum 0.3)
                        @ [Log INFO (''Registered vehicle detected: '' @ vehicle_id) None],
                      notify s w (vehicle_detected vehicle_id current_time))
                   else
                     (set_status_led w (JStr ''red'') True @ buzz w (JNum 1)
                        @ [Log WARNING (''Unregistered vehicle detected: '' @ vehicle_id) None],
                      notify s w (unregistered_vehicle vehicle_id current_time)))
                in case sent of
                     (tr, Some e) \<Rightarrow> (signal @ tr, Some e)
                   | (tr, None) \<Rightarrow>
                       (signal @ tr @ [AsyncSleep 2]
                          @ set_status_led w (JStr ''green'') False
                          @ set_status_led w (JStr ''red'') False, None))))"

text \<open>The \<^verbatim>\<open>try\<close> block of \<^verbatim>\<open>process_vehicle_scan\<close>.\<close>

definition report_scan :: "hardware \<Rightarrow> world \<Rightarrow> string \<Rightarrow> real \<Rightarrow> event list \<times> exn option" where
  "report_scan s w vehicle_id current_time =
     (let post = HttpPost (scan_data s w vehicle_id current_time) in
      case http w of
        Unreachable \<Rightarrow> ([post], Some RequestException)
      | Response status_code body \<Rightarrow>
          if status_code = 200 then
            (case on_verdict s w vehicle_id current_time body of
               (tr, e) \<Rightarrow> (post # tr, e))
          else
            (post # set_status_led w (JStr ''yellow'') True
               @ [Log ERROR ''Backend error'' None, AsyncSleep 1]
               @ set_status_led w (JStr ''yellow'') False, None))"

definition process_vehicle_scan :: "hardware \<Rightarrow> string \<Rightarrow> world \<Rightarrow> hardware \<times> event list" where
  "process_vehicle_scan s vehicle_id w =
     (let current_time = now w in
      if cooldown_active s vehicle_id current_time then
        (s, [Log INFO (''Scan cooldown active for '' @ vehicle_id) None])
      else
        (let s1 = s\<lparr>last_scan_time := (last_scan_time s)(vehicle_id \<mapsto> current_time)\<rparr>
         in case report_scan s1 w vehicle_id current_time of
              (tr, None) \<Rightarrow> (s1, tr)
            | (tr, Some e) \<Rightarrow>
                (s1, tr @ [Log ERROR ''Error processing vehicle scan'' (Some e)]
                        @ set_status_led w (JStr ''red'') True
                        @ [AsyncSleep 1]
                        @ set_status_led w (JStr ''red'') False)))"

section \<open>The scanning loop\<close>

text \<open>The \<^verbatim>\<open>try\<close> block of one pass of \<^verbatim>\<open>scan_loop\<close>. Every method it calls
  catches what it raises, so the block ends without an exception; the third component
  is what the \<^verbatim>\<open>except\<close> clause of the loop would see.\<close>

definition scan_cycle_body :: "hardware \<Rightarrow> world \<Rightarrow> hardware \<times> event list \<times> exn option" where
  "scan_cycle_body s w =
     (case read_rfid s of
        (s1, rfid_id, tr1) \<Rightarrow>
          (case (if (rfid_id = None \<or> rfid_id = Some []) \<and> camera s1 \<noteq> None
                 then scan_qr_code s1 else (s1, rfid_id, [])) of
             (s2, vehicle_id, tr2) \<Rightarrow>
               (case (case vehicle_id of
                        None \<Rightarrow> (s2, [])
                      | Some v \<Rightarrow> if v = [] then (s2, []) else process_vehicle_scan s2 v w) of
                  (s3, tr3) \<Rightarrow> (s3, tr1 @ tr2 @ tr3 @ [AsyncSleep 0.1], None))))"

definition scan_cycle :: "hardware \<Rightarrow> world \<Rightarrow> hardware \<times> event list" where
  "scan_cycle s w =
     (case scan_cycle_body s w of
        (s1, tr, None) \<Rightarrow> (s1, tr)
      | (s1, tr, Some e) \<Rightarrow> (s1, tr @ [Log ERROR ''Error in scan loop'' (Some e), AsyncSleep 1]))"

text \<open>The \<^verbatim>\<open>while self.is_running\<close> loop, run against the answers of the outside
  world for its next passes; the number returned counts the passes made.\<close>

fun scan_cycles :: "hardware \<Rightarrow> world list \<Rightarrow> hardware \<times> event list \<times> nat" where
  "scan_cycles s [] = (s, [], 0)"
| "scan_cycles s (w # ws) =
     (if is_running s then
        (case scan_cycle s w of
           (s1, tr1) \<Rightarrow>
             (case scan_cycles s1 ws of
                (s2, tr2, n) \<Rightarrow> (s2, tr1 @ tr2, Suc n)))
      else (s, [], 0))"

definition scan_loop :: "hardware \<Rightarrow> world list \<Rightarrow> hardware \<times> event list \<times> nat" where
  "scan_loop s ws =
     (case scan_cycles s ws of
        (s1, tr, n) \<Rightarrow> (s1, Log INFO ''Starting vehicle scanning loop'' None # tr, n))"

section \<open>The channel loop\<close>

definition handle_hardware_command :: "hardware \<Rightarrow> world \<Rightarrow> json \<Rightarrow> event list \<times> exn option" where
  "handle_hardware_command s w command =
     (case dict_get command ''command'' JNull of
        Inl e \<Rightarrow> ([], Some e)
      | Inr command_type \<Rightarrow>
          if command_type = JStr ''test_led'' then
            (case dict_get command ''color'' (JStr ''green'') of
               Inl e \<Rightarrow> ([], Some e)
             | Inr color \<Rightarrow>
                 (set_status_led w color True @ [AsyncSleep 1] @ set_status_led w color False,
                  None))
          else if command_type = JStr ''test_buzzer'' then
            (case dict_get command ''duration'' (JNum 0.5) of
               Inl e \<Rightarrow> ([], Some e)
             | Inr duration \<Rightarrow> (buzz w duration, None))
          else if command_type = JStr ''status_request'' then
            (send_hardware_status s w, None)
          else ([], None))"

text \<open>The \<^verbatim>\<open>try\<close> block of one pass of \<^verbatim>\<open>websocket_loop\<close>.\<close>

definition websocket_body :: "hardware \<Rightarrow> world \<Rightarrow> hardware \<times> event list \<times> exn option" where
  "websocket_body s w =
     (case websocket s of
        None \<Rightarrow>
          (case connect_websocket s w of
             (s1, tr) \<Rightarrow> (s1, tr @ [AsyncSleep 5], None))
      | Some c \<Rightarrow>
          (case ws_recv w of
             RecvClosed \<Rightarrow> (s, [WsRecv], Some ConnectionClosed)
           | RecvFailed \<Rightarrow> (s, [WsRecv], Some RecvError)
           | RecvMessage Malformed \<Rightarrow> (s, [WsRecv], Some JSONDecodeError)
           | RecvMessage (Parsed data) \<Rightarrow>
               (case dict_get data ''type'' JNull of
                  Inl e \<Rightarrow> (s, [WsRecv], Some e)
                | Inr t \<Rightarrow>
                    if t = JStr ''hardware_command'' then
                      (case handle_hardware_command s w data of
                         (tr, e) \<Rightarrow> (s, WsRecv # tr, e))
                    else (s, [WsRecv], None))))"

definition websocket_cycle :: "hardware \<Rightarrow> world \<Rightarrow> hardware \<times> event list" where
  "websocket_cycle s w =
     (case websocket_body s w of
        (s1, tr, None) \<Rightarrow> (s1, tr)
      | (s1, tr, Some e) \<Rightarrow>
          if e = ConnectionClosed then
            (s1\<lparr>websocket := None\<rparr>,
             tr @ [Log WARNING ''WebSocket connection closed, reconnecting...'' None,
                   AsyncSleep 5])
          else (s1, tr @ [Log ERROR ''Error in WebSocket loop'' (Some e), AsyncSleep 1]))"

fun websocket_loop :: "hardware \<Rightarrow> world list \<Rightarrow> hardware \<times> event list \<times> nat" where
  "websocket_loop s [] = (s, [], 0)"
| "websocket_loop s (w # ws) =
     (if is_running s then
        (case websocket_cycle s w of
           (s1, tr1) \<Rightarrow>
             (case websocket_loop s1 ws of
                (s2, tr2, n) \<Rightarrow> (s2, tr1 @ tr2, Suc n)))
      else (s, [], 0))"

section \<open>Reading a trace\<close>

text \<open>How long an event holds the program: the two sleeps take their duration, and
  everything else is taken to be instantaneous.\<close>

fun takes :: "event \<Rightarrow> real" where
  "takes (TimeSleep d) = d"
| "takes (AsyncSleep d) = d"
| "takes _ = 0"

text \<open>The time the program spends, after it first drives \<open>pin\<close> high, until it next
  drives it low: \<open>None\<close> when either event is missing.\<close>

fun until_low :: "nat \<Rightarrow> event list \<Rightarrow> real option" where
  "until_low pin [] = None"
| "until_low pin (e # es) =
     (if e = GpioOut pin False then Some 0
      else map_option (\<lambda>d. takes e + d) (until_low pin es))"

fun lit_for :: "nat \<Rightarrow> event list \<Rightarrow> real option" where
  "lit_for pin [] = None"
| "lit_for pin (e # es) =
     (if e = GpioOut pin True then until_low pin es else lit_for pin es)"

text \<open>Every connect attempt of a trace either opens it or directly follows a sleep of
  5; \<open>prev\<close> is the event before the trace.\<close>

fun connects_after_backoff :: "event option \<Rightarrow> event list \<Rightarrow> bool" where
  "connects_after_backoff prev [] = True"
| "connects_after_backoff prev (e # es) =
     ((e \<noteq> WsConnect \<or> prev = None \<or> prev = Some (AsyncSleep 5))
      \<and> connects_after_backoff (Some e) es)"

text \<open>The messages a trace delivered on the channel, and the reports it posted to the
  backend.\<close>

fun sent :: "event list \<Rightarrow> json list" where
  "sent [] = []"
| "sent (WsSend m # es) = m # sent es"
| "sent (e # es) = sent es"

fun posts :: "event list \<Rightarrow> json list" where
  "posts [] = []"
| "posts (HttpPost d # es) = d # posts es"
| "posts (e # es) = posts es"

section \<open>A booth to run the methods on\<close>

text \<open>The default configuration, at clock reading \<open>t\<close>, with a backend that answers
  \<open>h\<close>, a channel that accepts connections and sends and then closes, and working
  GPIO.\<close>

definition booth :: "real \<Rightarrow> http_outcome \<Rightarrow> world" where
  "booth t h =
     \<lparr> TOLL_BOOTH_ID = ''TB001'', LOCATION = (12.9716, 77.5946), now = t, http = h,
       ws_connect_ok = True, ws_send_ok = True, ws_recv = RecvClosed, gpio_ok = True \<rparr>"

text \<open>The floats that Python writes \<^verbatim>\<open>0.1\<close> and \<^verbatim>\<open>5.1\<close>.\<close>

definition clock_0_1 :: real where
  "clock_0_1 = 3602879701896397 / 36028797018963968"

definition clock_5_1 :: real where
  "clock_5_1 = 5742089524897382 / 1125899906842624"

text \<open>The same world with a GPIO driver that raises.\<close>

definition dead_gpio :: "real \<Rightarrow> http_outcome \<Rightarrow> world" where
  "dead_gpio t h = (booth t h)\<lparr>gpio_ok := False\<rparr>"

text \<open>The same booth once started, with its channel connected.\<close>

definition connected_booth :: hardware where
  "connected_booth = (init (Some []) None)\<lparr>websocket := Some WsConn, is_running := True\<rparr>"

text \<open>The backend's success response \<^verbatim>\<open>{"registered": b}\<close>.\<close>

definition verdict :: "bool \<Rightarrow> http_outcome" where
  "verdict b = Response 200 (Parsed (JObj [(''registered'', JBool b)]))"

text \<open>A started booth whose RFID reader holds the line \<^verbatim>\<open>VEH_001\r\n\<close> while its camera
  sees the QR code \<open>VEH_002\<close>; and one whose RFID reader is present and idle while its
  camera sees the QR code \<open>VEH_001\<close>.\<close>

definition both_ready :: hardware where
  "both_ready =
     (init (Some [RxLine (''VEH_001'' @ [CHR 0x0D, CHR 0x0A])])
           (Some [Frame [QrText ''VEH_002'']]))\<lparr>is_running := True\<rparr>"

definition qr_ready :: hardware where
  "qr_ready = (init (Some []) (Some [Frame [QrText ''VEH_001'']]))\<lparr>is_running := True\<rparr>"

text \<open>A started booth whose RFID reader fails at its next access.\<close>

definition faulty_reader :: hardware where
  "faulty_reader = (init (Some [RxIOError]) None)\<lparr>is_running := True\<rparr>"

text \<open>A world in which the channel accepts no connection; the command asking for the
  status; and a world in which the channel delivers that command while its sends
  fail.\<close>

definition offline :: "real \<Rightarrow> world" where
  "offline t = (booth t Unreachable)\<lparr>ws_connect_ok := False\<rparr>"

definition status_request :: json where
  "status_request =
     JObj [(''type'', JStr ''hardware_command''), (''command'', JStr ''status_request'')]"

definition stale_channel :: "real \<Rightarrow> http_outcome \<Rightarrow> world" where
  "stale_channel t h =
     (booth t h)\<lparr>ws_recv := RecvMessage (Parsed status_request), ws_send_ok := False\<rparr>"

section \<open>Deduplication\<close>

lemma process_vehicle_scan_state:
  "fst (process_vehicle_scan s v w) =
     (if cooldown_active s v (now w) then s
      else s\<lparr>last_scan_time := (last_scan_time s)(v \<mapsto> now w)\<rparr>)"
  by (simp add: process_vehicle_scan_def Let_def split: prod.splits option.splits)

lemma report_scan_starts_with_post:
  "\<exists>tr. fst (report_scan s w v t) = HttpPost (scan_data s w v t) # tr"
  by (simp add: report_scan_def Let_def split: http_outcome.splits prod.splits)

lemma scan_data_last_scan_time [simp]:
  "scan_data (s\<lparr>last_scan_time := m\<rparr>) w v t = scan_data s w v t"
  by (simp add: scan_data_def)

lemma process_vehicle_scan_accepted_post:
  assumes "\<not> cooldown_active s v (now w)"
  shows "\<exists>tr. snd (process_vehicle_scan s v w) = HttpPost (scan_data s w v (now w)) # tr"
proof -
  let ?s1 = "s\<lparr>last_scan_time := (last_scan_time s)(v \<mapsto> now w)\<rparr>"
  obtain tr where tr: "fst (report_scan ?s1 w v (now w)) = HttpPost (scan_data s w v (now w)) # tr"
    using report_scan_starts_with_post [of ?s1 w v "now w"] by auto
  show ?thesis
    using assms tr
    by (cases "report_scan ?s1 w v (now w)")
       (auto simp: process_vehicle_scan_def Let_def split: option.splits)
qed

lemma process_vehicle_scan_suppressed:
  assumes "cooldown_active s v (now w)"
  shows "process_vehicle_scan s v w = (s, [Log INFO (''Scan cooldown active for '' @ v) None])"
  using assms by (simp add: process_vehicle_scan_def)

lemma binade_bounds:
  "0 < a \<Longrightarrow> 2 powi (binade a) \<le> a \<and> a < 2 powi (binade a + 1)"
proof (induction a rule: binade.induct)
  case (1 a)
  show ?case
  proof (cases "a < 1")
    case True
    with "1.prems" have ih: "2 powi (binade (2 * a)) \<le> 2 * a \<and> 2 * a < 2 powi (binade (2 * a) + 1)"
      by (intro "1.IH"(1)) simp_all
    have b: "binade a = binade (2 * a) - 1"
      using True "1.prems" by (subst binade.simps) simp
    have p: "(2::real) powi (binade (2 * a)) = 2 * 2 powi (binade (2 * a) - 1)"
      "2 powi (binade (2 * a) + 1) = 2 * (2::real) powi (binade (2 * a))"
      by (simp_all add: power_int_diff power_int_add)
    show ?thesis using ih unfolding b using p by simp
  next
    case False
    show ?thesis
    proof (cases "2 \<le> a")
      case True
      with False "1.prems" have ih: "2 powi (binade (a / 2)) \<le> a / 2 \<and> a / 2 < 2 powi (binade (a / 2) + 1)"
        by (intro "1.IH"(2)) simp_all
      have b: "binade a = binade (a / 2) + 1"
        using True False "1.prems" by (subst binade.simps) simp
      have p: "2 powi (binade (a / 2) + 1) = 2 * (2::real) powi (binade (a / 2))"
        "2 powi (binade (a / 2) + 1 + 1) = 2 * (2 * (2::real) powi (binade (a / 2)))"
        by (simp_all add: power_int_add)
      show ?thesis using ih unfolding b p by simp
    next
      case F2: False
      have b: "binade a = 0"
        using False F2 "1.prems" by (subst binade.simps) simp
      show ?thesis using False F2 by (simp add: b)
    qed
  qed
qed

lemma round_even_ge_floor: "\<lfloor>x\<rfloor> \<le> round_even x"
  by (simp add: round_even_def Let_def)

lemma float_round_not_less_5:
  assumes "5 \<le> x"
  shows "\<not> fl_less (float_round x) 5"
proof -
  define e where "e = binade x"
  have pos: "0 < x" using assms by simp
  from binade_bounds [OF pos] have lo: "2 powi e \<le> x" and hi: "x < 2 powi (e + 1)"
    by (simp_all add: e_def)
  have e2: "2 \<le> e"
  proof (rule ccontr)
    assume "\<not> 2 \<le> e"
    then have "e + 1 \<le> 2" by simp
    then have "(2::real) powi (e + 1) \<le> 2 powi 2" by (intro power_int_increasing) simp_all
    with hi assms show False by simp
  qed
  define q :: real where "q = 2 powi (e - 52)"
  have qpos: "0 < q" by (simp add: q_def)
  define y where "y = of_int (round_even (x / q)) * q"
  have y5: "5 \<le> y"
  proof (cases "e \<le> 52")
    case True
    define k :: int where "k = 5 * 2 ^ nat (52 - e)"
    have "(2::real) powi (52 - e) = 2 ^ nat (52 - e)"
      using True by (simp add: power_int_def)
    moreover have "q * 2 powi (52 - e) = 1"
      unfolding q_def by (simp flip: power_int_add)
    ultimately have kq: "of_int k * q = 5" by (simp add: k_def mult.commute)
    then have "of_int k = 5 / q" using qpos by (simp add: field_simps)
    also have "\<dots> \<le> x / q" using assms qpos by (simp add: divide_right_mono)
    finally have "k \<le> \<lfloor>x / q\<rfloor>" by (simp add: le_floor_iff)
    then have "k \<le> round_even (x / q)" using round_even_ge_floor [of "x / q"] by simp
    then have "of_int k * q \<le> y" unfolding y_def using qpos by simp
    then show ?thesis using kq by simp
  next
    case False
    then have "0 \<le> e - 52" by simp
    then have q1: "1 \<le> q" unfolding q_def by (intro one_le_power_int) simp_all
    have "(2::real) powi (52 + (e - 52)) = 2 powi 52 * 2 powi (e - 52)"
      by (rule power_int_add) simp
    then have "(2::real) powi e = 2 ^ 52 * q"
      unfolding q_def by simp
    then have "2 ^ 52 \<le> x / q" using lo qpos by (simp add: field_simps)
    then have "of_int (2 ^ 52) \<le> x / q" by simp
    then have "(2 ^ 52 :: int) \<le> \<lfloor>x / q\<rfloor>" by (subst le_floor_iff)
    then have "(2 ^ 52 :: int) \<le> round_even (x / q)"
      using round_even_ge_floor [of "x / q"] by (rule order_trans)
    then have "(2 ^ 52 :: real) \<le> of_int (round_even (x / q))"
      by (metis of_int_le_iff of_int_numeral of_int_power)
    then have "2 ^ 52 * 1 \<le> of_int (round_even (x / q)) * q"
      using q1 by (intro mult_mono) simp_all
    then show ?thesis unfolding y_def by simp
  qed
  have ax: "\<bar>x\<bar> = x" using pos by simp
  have m: "max (binade x) (- 1022) = e" using e2 by (simp add: e_def)
  have xne: "(x = 0) = False" using pos by simp
  have "float_round x = (if 2 powi 1024 \<le> y then PosInf
            else if y \<le> - (2 powi 1024) then NegInf else Finite y)"
    unfolding float_round_def Let_def ax m y_def q_def by (simp only: xne if_False)
  moreover have "\<not> y \<le> - (2 powi 1024)"
  proof -
    have "(0::real) \<le> 2 powi 1024" by simp
    then show ?thesis using y5 by linarith
  qed
  ultimately show ?thesis using y5 by (simp only: fl_less.simps split: if_splits) auto
qed


lemma cooldown_active_after:
  "cooldown_active (s\<lparr>last_scan_time := (last_scan_time s)(X \<mapsto> t1)\<rparr>) X t2
     \<longleftrightarrow> fl_less (float_sub t2 t1) (scan_cooldown s)"
  by (simp add: cooldown_active_def)

text \<open>
  Claim C2, as the code has it. The cooldown is 5. A scan of an identifier never seen
  before is accepted whatever the clock reads: its time is recorded and the report is
  posted. After a scan of \<open>X\<close> accepted at \<open>t1\<close>, a scan of \<open>X\<close> at a later \<open>t2\<close> is
  decided by the float difference of the two readings: below 5 the scan is suppressed,
  the method only logs and the object, with its recorded time, is unchanged; otherwise
  the scan is accepted, \<open>t2\<close> is recorded and the report is posted. Where the float
  subtraction is exact and \<open>t2 - t1 < 5\<close> the scan is suppressed, and wherever
  \<open>t2 - t1 \<ge> 5\<close> it is accepted.
\<close>

theorem cooldown_window:
  fixes s :: hardware and X :: string and w1 w2 :: world
  assumes cd: "scan_cooldown s = 5"
  shows "(last_scan_time s X = None \<longrightarrow>
            \<not> cooldown_active s X (now w1)
          \<and> last_scan_time (fst (process_vehicle_scan s X w1)) X = Some (now w1)
          \<and> (\<exists>tr. snd (process_vehicle_scan s X w1) = HttpPost (scan_data s w1 X (now w1)) # tr))
       \<and> (\<not> cooldown_active s X (now w1) \<and> now w1 < now w2 \<longrightarrow>
            (let s1 = fst (process_vehicle_scan s X w1) in
               (fl_less (float_sub (now w2) (now w1)) 5 \<longrightarrow>
                  cooldown_active s1 X (now w2)
                \<and> process_vehicle_scan s1 X w2
                    = (s1, [Log INFO (''Scan cooldown active for '' @ X) None]))
             \<and> (\<not> fl_less (float_sub (now w2) (now w1)) 5 \<longrightarrow>
                  \<not> cooldown_active s1 X (now w2)
                \<and> last_scan_time (fst (process_vehicle_scan s1 X w2)) X = Some (now w2)
                \<and> (\<exists>tr. snd (process_vehicle_scan s1 X w2)
                          = HttpPost (scan_data s w2 X (now w2)) # tr))
             \<and> (float_sub (now w2) (now w1) = Finite (now w2 - now w1)
                  \<and> now w2 - now w1 < 5 \<longrightarrow>
                  cooldown_active s1 X (now w2)
                \<and> process_vehicle_scan s1 X w2
                    = (s1, [Log INFO (''Scan cooldown active for '' @ X) None]))
             \<and> (now w2 - now w1 \<ge> 5 \<longrightarrow>
                  \<not> cooldown_active s1 X (now w2)
                \<and> last_scan_time (fst (process_vehicle_scan s1 X w2)) X = Some (now w2)
                \<and> (\<exists>tr. snd (process_vehicle_scan s1 X w2)
                          = HttpPost (scan_data s w2 X (now w2)) # tr))))"
proof (intro conjI impI)
  assume n: "last_scan_time s X = None"
  then show a: "\<not> cooldown_active s X (now w1)" by (simp add: cooldown_active_def)
  from a show "last_scan_time (fst (process_vehicle_scan s X w1)) X = Some (now w1)"
    by (simp add: process_vehicle_scan_state)
  from a show "\<exists>tr. snd (process_vehicle_scan s X w1) = HttpPost (scan_data s w1 X (now w1)) # tr"
    by (rule process_vehicle_scan_accepted_post)
next
  assume h: "\<not> cooldown_active s X (now w1) \<and> now w1 < now w2"
  let ?s1 = "s\<lparr>last_scan_time := (last_scan_time s)(X \<mapsto> now w1)\<rparr>"
  let ?d = "float_sub (now w2) (now w1)"
  have s1: "fst (process_vehicle_scan s X w1) = ?s1"
    using h by (simp add: process_vehicle_scan_state)
  have act: "cooldown_active ?s1 X (now w2) \<longleftrightarrow> fl_less ?d 5"
    using cd by (simp add: cooldown_active_after)
  have sup: "cooldown_active ?s1 X (now w2)
             \<and> process_vehicle_scan ?s1 X w2
                 = (?s1, [Log INFO (''Scan cooldown active for '' @ X) None])"
    if "fl_less ?d 5"
    using that act process_vehicle_scan_suppressed [of ?s1 X w2] by simp
  have acc: "\<not> cooldown_active ?s1 X (now w2)
             \<and> last_scan_time (fst (process_vehicle_scan ?s1 X w2)) X = Some (now w2)
             \<and> (\<exists>tr. snd (process_vehicle_scan ?s1 X w2)
                       = HttpPost (scan_data s w2 X (now w2)) # tr)"
    if "\<not> fl_less ?d 5"
  proof -
    from that act have c: "\<not> cooldown_active ?s1 X (now w2)" by simp
    from process_vehicle_scan_accepted_post [OF c] c show ?thesis
      by (simp add: process_vehicle_scan_state)
  qed
  have exact: "fl_less ?d 5" if "?d = Finite (now w2 - now w1) \<and> now w2 - now w1 < 5"
    using that by simp
  have late: "\<not> fl_less ?d 5" if "now w2 - now w1 \<ge> 5"
    using float_round_not_less_5 [OF that] by (simp add: float_sub_def)
  show "let s1 = fst (process_vehicle_scan s X w1) in
               (fl_less (float_sub (now w2) (now w1)) 5 \<longrightarrow>
                  cooldown_active s1 X (now w2)
                \<and> process_vehicle_scan s1 X w2
                    = (s1, [Log INFO (''Scan cooldown active for '' @ X) None]))
             \<and> (\<not> fl_less (float_sub (now w2) (now w1)) 5 \<longrightarrow>
                  \<not> cooldown_active s1 X (now w2)
                \<and> last_scan_time (fst (process_vehicle_scan s1 X w2)) X = Some (now w2)
                \<and> (\<exists>tr. snd (process_vehicle_scan s1 X w2)
                          = HttpPost (scan_data s w2 X (now w2)) # tr))
             \<and> (float_sub (now w2) (now w1) = Finite (now w2 - now w1)
                  \<and> now w2 - now w1 < 5 \<longrightarrow>
                  cooldown_active s1 X (now w2)
                \<and> process_vehicle_scan s1 X w2
                    = (s1, [Log INFO (''Scan cooldown active for '' @ X) None]))
             \<and> (now w2 - now w1 \<ge> 5 \<longrightarrow>
                  \<not> cooldown_active s1 X (now w2)
                \<and> last_scan_time (fst (process_vehicle_scan s1 X w2)) X = Some (now w2)
                \<and> (\<exists>tr. snd (process_vehicle_scan s1 X w2)
                          = HttpPost (scan_data s w2 X (now w2)) # tr))"
    unfolding Let_def s1
    using sup acc exact late by blast
qed

lemma float_sub_small:
  "float_sub 3 0 = Finite 3" "float_sub 5 0 = Finite 5" "float_sub 4 0 = Finite 4"
  "float_sub clock_5_1 clock_0_1 = Finite 5"
  by (simp_all add: float_sub_def float_round_def binade.simps round_even_def Let_def
        clock_0_1_def clock_5_1_def)

theorem cooldown_window_witness:
  "scan_cooldown (init (Some []) None) = 5
   \<and> last_scan_time (init (Some []) None) ''VEH_001'' = None
   \<and> \<not> cooldown_active (init (Some []) None) ''VEH_001'' (now (booth 0 Unreachable))
   \<and> last_scan_time (fst (process_vehicle_scan (init (Some []) None) ''VEH_001'' (booth 0 Unreachable)))
        ''VEH_001'' = Some 0
   \<and> now (booth 0 Unreachable) < now (booth 3 Unreachable)
   \<and> float_sub (now (booth 3 Unreachable)) (now (booth 0 Unreachable))
       = Finite (now (booth 3 Unreachable) - now (booth 0 Unreachable))
   \<and> now (booth 3 Unreachable) - now (booth 0 Unreachable) < 5
   \<and> fl_less (float_sub (now (booth 3 Unreachable)) (now (booth 0 Unreachable))) 5
   \<and> process_vehicle_scan
        (fst (process_vehicle_scan (init (Some []) None) ''VEH_001'' (booth 0 Unreachable)))
        ''VEH_001'' (booth 3 Unreachable)
      = (fst (process_vehicle_scan (init (Some []) None) ''VEH_001'' (booth 0 Unreachable)),
         [Log INFO ''Scan cooldown active for VEH_001'' None])
   \<and> now (booth 0 Unreachable) < now (booth 5 Unreachable)
   \<and> now (booth 5 Unreachable) - now (booth 0 Unreachable) \<ge> 5
   \<and> \<not> fl_less (float_sub (now (booth 5 Unreachable)) (now (booth 0 Unreachable))) 5
   \<and> last_scan_time
        (fst (process_vehicle_scan
           (fst (process_vehicle_scan (init (Some []) None) ''VEH_001'' (booth 0 Unreachable)))
           ''VEH_001'' (booth 5 Unreachable))) ''VEH_001'' = Some 5"
proof -
  let ?s = "init (Some []) None"
  let ?w0 = "booth 0 Unreachable" and ?w3 = "booth 3 Unreachable" and ?w5 = "booth 5 Unreachable"
  let ?s1 = "fst (process_vehicle_scan ?s ''VEH_001'' ?w0)"
  have cd: "scan_cooldown ?s = 5" and fresh: "last_scan_time ?s ''VEH_001'' = None"
    by (simp_all add: init_def)
  have n: "now ?w0 = 0" "now ?w3 = 3" "now ?w5 = 5" by (simp_all add: booth_def)
  note t3 = cooldown_window [OF cd, of "''VEH_001''" ?w0 ?w3]
  note t5 = cooldown_window [OF cd, of "''VEH_001''" ?w0 ?w5]
  from t3 fresh have acc: "\<not> cooldown_active ?s ''VEH_001'' (now ?w0)"
    and rec: "last_scan_time ?s1 ''VEH_001'' = Some 0"
    by (simp_all add: n)
  have lt3: "now ?w0 < now ?w3" and lt5: "now ?w0 < now ?w5" by (simp_all add: n)
  have ex3: "float_sub (now ?w3) (now ?w0) = Finite (now ?w3 - now ?w0)"
    by (simp add: n float_sub_small)
  have d3: "now ?w3 - now ?w0 < 5" and d5: "now ?w5 - now ?w0 \<ge> 5" by (simp_all add: n)
  have f3: "fl_less (float_sub (now ?w3) (now ?w0)) 5"
    and f5: "\<not> fl_less (float_sub (now ?w5) (now ?w0)) 5"
    by (simp_all add: n float_sub_small)
  have ap: "''Scan cooldown active for '' @ ''VEH_001'' = ''Scan cooldown active for VEH_001''"
    by simp
  from t3 acc lt3 ex3 d3
  have sup: "process_vehicle_scan ?s1 ''VEH_001'' ?w3
               = (?s1, [Log INFO ''Scan cooldown active for VEH_001'' None])"
    unfolding Let_def ap by blast
  from t5 acc lt5 d5
  have "last_scan_time (fst (process_vehicle_scan ?s1 ''VEH_001'' ?w5)) ''VEH_001'' = Some (now ?w5)"
    unfolding Let_def by blast
  then have late: "last_scan_time (fst (process_vehicle_scan ?s1 ''VEH_001'' ?w5)) ''VEH_001'' = Some 5"
    by (simp add: n)
  show ?thesis
    by (intro conjI cd fresh acc rec lt3 ex3 d3 f3 sup lt5 d5 f5 late)
qed

text \<open>
  Claim C2, as the specification states it, suppresses every scan with \<open>t2 - t1 < 5\<close>.
  After a scan accepted at the float 0.1, a scan at the float 5.1 comes less than 5
  later, but the float difference of the two readings is 5: the scan is accepted,
  recorded and posted.
\<close>

theorem cooldown_rounding_counterexample:
  "float_round clock_0_1 = Finite clock_0_1
   \<and> float_round clock_5_1 = Finite clock_5_1
   \<and> \<not> cooldown_active (init (Some []) None) ''VEH_001'' (now (booth clock_0_1 Unreachable))
   \<and> last_scan_time
        (fst (process_vehicle_scan (init (Some []) None) ''VEH_001'' (booth clock_0_1 Unreachable)))
        ''VEH_001'' = Some clock_0_1
   \<and> now (booth clock_0_1 Unreachable) < now (booth clock_5_1 Unreachable)
   \<and> now (booth clock_5_1 Unreachable) - now (booth clock_0_1 Unreachable) < 5
   \<and> float_sub (now (booth clock_5_1 Unreachable)) (now (booth clock_0_1 Unreachable)) = Finite 5
   \<and> \<not> cooldown_active
          (fst (process_vehicle_scan (init (Some []) None) ''VEH_001'' (booth clock_0_1 Unreachable)))
          ''VEH_001'' (now (booth clock_5_1 Unreachable))
   \<and> last_scan_time
        (fst (process_vehicle_scan
           (fst (process_vehicle_scan (init (Some []) None) ''VEH_001'' (booth clock_0_1 Unreachable)))
           ''VEH_001'' (booth clock_5_1 Unreachable))) ''VEH_001'' = Some clock_5_1
   \<and> hd (snd (process_vehicle_scan
           (fst (process_vehicle_scan (init (Some []) None) ''VEH_001'' (booth clock_0_1 Unreachable)))
           ''VEH_001'' (booth clock_5_1 Unreachable)))
       = HttpPost (scan_data (init (Some []) None) (booth clock_5_1 Unreachable) ''VEH_001'' clock_5_1)"
proof -
  let ?s = "init (Some []) None"
  let ?w1 = "booth clock_0_1 Unreachable" and ?w2 = "booth clock_5_1 Unreachable"
  have n: "now ?w1 = clock_0_1" "now ?w2 = clock_5_1" by (simp_all add: booth_def)
  have r1: "float_round clock_0_1 = Finite clock_0_1"
    and r2: "float_round clock_5_1 = Finite clock_5_1"
    by (simp_all add: float_round_def binade.simps round_even_def Let_def
          clock_0_1_def clock_5_1_def)
  have acc: "\<not> cooldown_active ?s ''VEH_001'' (now ?w1)"
    by (simp add: init_def cooldown_active_def)
  have s1: "fst (process_vehicle_scan ?s ''VEH_001'' ?w1)
              = ?s\<lparr>last_scan_time := (last_scan_time ?s)(''VEH_001'' \<mapsto> clock_0_1)\<rparr>"
    using acc by (simp add: process_vehicle_scan_state n)
  have rec: "last_scan_time (fst (process_vehicle_scan ?s ''VEH_001'' ?w1)) ''VEH_001'' = Some clock_0_1"
    by (simp add: s1)
  have lt: "now ?w1 < now ?w2" and d: "now ?w2 - now ?w1 < 5"
    unfolding n by (simp_all add: clock_0_1_def clock_5_1_def)
  have f: "float_sub (now ?w2) (now ?w1) = Finite 5" by (simp add: n float_sub_small)
  have cd: "scan_cooldown ?s = 5" by (simp add: init_def)
  have acc2: "\<not> cooldown_active (fst (process_vehicle_scan ?s ''VEH_001'' ?w1)) ''VEH_001'' (now ?w2)"
    unfolding s1 n by (simp add: cooldown_active_after float_sub_small cd)
  have rec2: "last_scan_time
        (fst (process_vehicle_scan (fst (process_vehicle_scan ?s ''VEH_001'' ?w1)) ''VEH_001'' ?w2))
        ''VEH_001'' = Some clock_5_1"
    using acc2 by (simp add: process_vehicle_scan_state n)
  have post2: "hd (snd (process_vehicle_scan (fst (process_vehicle_scan ?s ''VEH_001'' ?w1)) ''VEH_001'' ?w2))
       = HttpPost (scan_data ?s ?w2 ''VEH_001'' clock_5_1)"
    using process_vehicle_scan_accepted_post [OF acc2] unfolding s1 n by auto
  show ?thesis by (intro conjI r1 r2 acc rec lt d f acc2 rec2 post2)
qed

section \<open>Feedback\<close>

lemma set_status_led_green: "gpio_ok w \<Longrightarrow> set_status_led w (JStr ''green'') b = [GpioOut LED_GREEN b]"
  by (simp add: set_status_led_def)

lemma set_status_led_red: "gpio_ok w \<Longrightarrow> set_status_led w (JStr ''red'') b = [GpioOut LED_RED b]"
  by (simp add: set_status_led_def)

lemma set_status_led_yellow: "gpio_ok w \<Longrightarrow> set_status_led w (JStr ''yellow'') b = [GpioOut LED_YELLOW b]"
  by (simp add: set_status_led_def)

lemma buzz_number:
  "gpio_ok w \<Longrightarrow> 0 \<le> d \<Longrightarrow> d * 10 ^ 9 < 2 ^ 63 \<Longrightarrow>
     buzz w (JNum d) = [GpioOut BUZZER_PIN True, TimeSleep d, GpioOut BUZZER_PIN False]"
  by (simp add: buzz_def)

lemma pins_distinct:
  "LED_GREEN \<noteq> LED_RED" "LED_GREEN \<noteq> LED_YELLOW" "LED_GREEN \<noteq> BUZZER_PIN"
  "LED_RED \<noteq> LED_GREEN" "LED_RED \<noteq> LED_YELLOW" "LED_RED \<noteq> BUZZER_PIN"
  "LED_YELLOW \<noteq> LED_GREEN" "LED_YELLOW \<noteq> LED_RED" "LED_YELLOW \<noteq> BUZZER_PIN"
  "BUZZER_PIN \<noteq> LED_GREEN" "BUZZER_PIN \<noteq> LED_RED" "BUZZER_PIN \<noteq> LED_YELLOW"
  by (simp_all add: LED_GREEN_def LED_RED_def LED_YELLOW_def BUZZER_PIN_def)






lemma on_verdict_last_scan_time [simp]:
  "on_verdict (s\<lparr>last_scan_time := m\<rparr>) w v t body = on_verdict s w v t body"
  by (simp add: on_verdict_def notify_def Let_def split: payload.splits sum.splits)

lemma process_vehicle_scan_200:
  assumes "\<not> cooldown_active s v (now w)" and "http w = Response 200 body"
  shows "snd (process_vehicle_scan s v w) =
           (case on_verdict s w v (now w) body of
              (tr, None) \<Rightarrow> HttpPost (scan_data s w v (now w)) # tr
            | (tr, Some e) \<Rightarrow>
                HttpPost (scan_data s w v (now w)) # tr
                  @ [Log ERROR ''Error processing vehicle scan'' (Some e)]
                  @ set_status_led w (JStr ''red'') True @ [AsyncSleep 1]
                  @ set_status_led w (JStr ''red'') False)"
  using assms
  by (simp add: process_vehicle_scan_def report_scan_def Let_def split: prod.splits option.splits)

lemma notify_connected:
  "websocket s = Some c \<Longrightarrow> ws_send_ok w \<Longrightarrow> notify s w m = ([WsSend m], None)"
  by (simp add: notify_def ws_send_def)

lemma on_verdict_registered:
  assumes "dict_get result ''registered'' (JBool False) = Inr r" and "truthy r"
    and "gpio_ok w" and "websocket s = Some c" and "ws_send_ok w"
  shows "on_verdict s w v t (Parsed result) =
           ([GpioOut LED_GREEN True,
             GpioOut BUZZER_PIN True, TimeSleep 0.3, GpioOut BUZZER_PIN False,
             Log INFO (''Registered vehicle detected: '' @ v) None,
             WsSend (vehicle_detected v t),
             AsyncSleep 2, GpioOut LED_GREEN False, GpioOut LED_RED False], None)"
  using assms
  by (simp add: on_verdict_def set_status_led_green set_status_led_red buzz_number
        notify_connected)

lemma on_verdict_unregistered:
  assumes "dict_get result ''registered'' (JBool False) = Inr r" and "\<not> truthy r"
    and "gpio_ok w" and "websocket s = Some c" and "ws_send_ok w"
  shows "on_verdict s w v t (Parsed result) =
           ([GpioOut LED_RED True,
             GpioOut BUZZER_PIN True, TimeSleep 1, GpioOut BUZZER_PIN False,
             Log WARNING (''Unregistered vehicle detected: '' @ v) None,
             WsSend (unregistered_vehicle v t),
             AsyncSleep 2, GpioOut LED_GREEN False, GpioOut LED_RED False], None)"
  using assms
  by (simp add: on_verdict_def set_status_led_green set_status_led_red buzz_number
        notify_connected)

lemma notify_no_failure:
  assumes "websocket s = None \<or> ws_send_ok w"
  shows "notify s w m = ((if websocket s = None then [] else [WsSend m]), None)"
  using assms by (auto simp: notify_def ws_send_def split: option.splits)

lemma on_verdict_completes:
  assumes "dict_get result ''registered'' (JBool False) = Inr r"
    and "gpio_ok w" and "websocket s = None \<or> ws_send_ok w"
  shows "on_verdict s w v t (Parsed result) =
           ((if truthy r
             then [GpioOut LED_GREEN True,
                   GpioOut BUZZER_PIN True, TimeSleep 0.3, GpioOut BUZZER_PIN False,
                   Log INFO (''Registered vehicle detected: '' @ v) None]
                  @ (if websocket s = None then []
                     else [WsSend (JObj [(''type'', JStr ''vehicle_detected''),
                                         (''vehicleId'', JStr v),
                                         (''registered'', JBool True),
                                         (''timestamp'', JNum t)])])
             else [GpioOut LED_RED True,
                   GpioOut BUZZER_PIN True, TimeSleep 1, GpioOut BUZZER_PIN False,
                   Log WARNING (''Unregistered vehicle detected: '' @ v) None]
                  @ (if websocket s = None then []
                     else [WsSend (JObj [(''type'', JStr ''unregistered_vehicle''),
                                         (''vehicleId'', JStr v),
                                         (''timestamp'', JNum t)])]))
            @ [AsyncSleep 2, GpioOut LED_GREEN False, GpioOut LED_RED False], None)"
  using assms(1,2)
  by (simp add: on_verdict_def notify_no_failure [OF assms(3)] set_status_led_green
        set_status_led_red buzz_number vehicle_detected_def unregistered_vehicle_def)

text \<open>
  Claim C3, as the code has it. On an accepted scan answered with status 200 and a
  verdict, with working GPIO and no send that fails: when \<open>registered\<close> is true, the
  green LED is driven on, the buzzer sounds for 0.3, \<open>vehicle_detected\<close> is sent if the
  channel is connected (nothing is sent if \<^verbatim>\<open>self.websocket\<close> is \<open>None\<close>), and after a
  further wait of 2.0 the LED is driven off, 2.3 after it was driven on; otherwise the
  red LED is driven on, the buzzer sounds for 1.0, \<open>unregistered_vehicle\<close> is sent if
  the channel is connected, and after a further wait of 2.0 the LED is driven off, 3.0
  after it was driven on. The buzz is a blocking pulse, so the hold of 2.0 starts when it
  has ended.
\<close>

theorem verdict_feedback:
  assumes acc: "\<not> cooldown_active s v (now w)"
    and ok: "http w = Response 200 (Parsed result)"
    and reg: "dict_get result ''registered'' (JBool False) = Inr r"
    and gpio: "gpio_ok w"
    and nofail: "websocket s = None \<or> ws_send_ok w"
  shows "(truthy r \<longrightarrow>
            snd (process_vehicle_scan s v w) =
              [HttpPost (scan_data s w v (now w)),
               GpioOut LED_GREEN True,
               GpioOut BUZZER_PIN True, TimeSleep 0.3, GpioOut BUZZER_PIN False,
               Log INFO (''Registered vehicle detected: '' @ v) None]
              @ (if websocket s = None then []
                 else [WsSend (JObj [(''type'', JStr ''vehicle_detected''),
                                     (''vehicleId'', JStr v),
                                     (''registered'', JBool True),
                                     (''timestamp'', JNum (now w))])])
              @ [AsyncSleep 2, GpioOut LED_GREEN False, GpioOut LED_RED False]
          \<and> lit_for LED_GREEN (snd (process_vehicle_scan s v w)) = Some 2.3)
       \<and> (\<not> truthy r \<longrightarrow>
            snd (process_vehicle_scan s v w) =
              [HttpPost (scan_data s w v (now w)),
               GpioOut LED_RED True,
               GpioOut BUZZER_PIN True, TimeSleep 1, GpioOut BUZZER_PIN False,
               Log WARNING (''Unregistered vehicle detected: '' @ v) None]
              @ (if websocket s = None then []
                 else [WsSend (JObj [(''type'', JStr ''unregistered_vehicle''),
                                     (''vehicleId'', JStr v),
                                     (''timestamp'', JNum (now w))])])
              @ [AsyncSleep 2, GpioOut LED_GREEN False, GpioOut LED_RED False]
          \<and> lit_for LED_RED (snd (process_vehicle_scan s v w)) = Some 3)"
proof (intro conjI impI)
  assume t: "truthy r"
  show tr: "snd (process_vehicle_scan s v w) =
              [HttpPost (scan_data s w v (now w)),
               GpioOut LED_GREEN True,
               GpioOut BUZZER_PIN True, TimeSleep 0.3, GpioOut BUZZER_PIN False,
               Log INFO (''Registered vehicle detected: '' @ v) None]
              @ (if websocket s = None then []
                 else [WsSend (JObj [(''type'', JStr ''vehicle_detected''),
                                     (''vehicleId'', JStr v),
                                     (''registered'', JBool True),
                                     (''timestamp'', JNum (now w))])])
              @ [AsyncSleep 2, GpioOut LED_GREEN False, GpioOut LED_RED False]"
    using t
    by (simp add: process_vehicle_scan_200 [OF acc ok] on_verdict_completes [OF reg gpio nofail])
  show "lit_for LED_GREEN (snd (process_vehicle_scan s v w)) = Some 2.3"
    unfolding tr by (cases "websocket s") (simp_all add: pins_distinct)
next
  assume f: "\<not> truthy r"
  show tr: "snd (process_vehicle_scan s v w) =
              [HttpPost (scan_data s w v (now w)),
               GpioOut LED_RED True,
               GpioOut BUZZER_PIN True, TimeSleep 1, GpioOut BUZZER_PIN False,
               Log WARNING (''Unregistered vehicle detected: '' @ v) None]
              @ (if websocket s = None then []
                 else [WsSend (JObj [(''type'', JStr ''unregistered_vehicle''),
                                     (''vehicleId'', JStr v),
                                     (''timestamp'', JNum (now w))])])
              @ [AsyncSleep 2, GpioOut LED_GREEN False, GpioOut LED_RED False]"
    using f
    by (simp add: process_vehicle_scan_200 [OF acc ok] on_verdict_completes [OF reg gpio nofail])
  show "lit_for LED_RED (snd (process_vehicle_scan s v w)) = Some 3"
    unfolding tr by (cases "websocket s") (simp_all add: pins_distinct)
qed

theorem verdict_feedback_witness:
  "\<not> cooldown_active connected_booth ''VEH_001'' (now (booth 0 (verdict True)))
   \<and> http (booth 0 (verdict True)) = Response 200 (Parsed (JObj [(''registered'', JBool True)]))
   \<and> dict_get (JObj [(''registered'', JBool True)]) ''registered'' (JBool False) = Inr (JBool True)
   \<and> gpio_ok (booth 0 (verdict True)) \<and> ws_send_ok (booth 0 (verdict True)) \<and> truthy (JBool True)
   \<and> snd (process_vehicle_scan connected_booth ''VEH_001'' (booth 0 (verdict True))) =
        [HttpPost (scan_data connected_booth (booth 0 (verdict True)) ''VEH_001'' 0),
         GpioOut LED_GREEN True,
         GpioOut BUZZER_PIN True, TimeSleep 0.3, GpioOut BUZZER_PIN False,
         Log INFO ''Registered vehicle detected: VEH_001'' None,
         WsSend (JObj [(''type'', JStr ''vehicle_detected''), (''vehicleId'', JStr ''VEH_001''),
                       (''registered'', JBool True), (''timestamp'', JNum 0)]),
         AsyncSleep 2, GpioOut LED_GREEN False, GpioOut LED_RED False]
   \<and> lit_for LED_GREEN (snd (process_vehicle_scan connected_booth ''VEH_001'' (booth 0 (verdict True))))
       = Some 2.3
   \<and> \<not> cooldown_active connected_booth ''VEH_002'' (now (booth 0 (verdict False)))
   \<and> http (booth 0 (verdict False)) = Response 200 (Parsed (JObj [(''registered'', JBool False)]))
   \<and> dict_get (JObj [(''registered'', JBool False)]) ''registered'' (JBool False) = Inr (JBool False)
   \<and> \<not> truthy (JBool False)
   \<and> snd (process_vehicle_scan connected_booth ''VEH_002'' (booth 0 (verdict False))) =
        [HttpPost (scan_data connected_booth (booth 0 (verdict False)) ''VEH_002'' 0),
         GpioOut LED_RED True,
         GpioOut BUZZER_PIN True, TimeSleep 1, GpioOut BUZZER_PIN False,
         Log WARNING ''Unregistered vehicle detected: VEH_002'' None,
         WsSend (JObj [(''type'', JStr ''unregistered_vehicle''), (''vehicleId'', JStr ''VEH_002''),
                       (''timestamp'', JNum 0)]),
         AsyncSleep 2, GpioOut LED_GREEN False, GpioOut LED_RED False]
   \<and> lit_for LED_RED (snd (process_vehicle_scan connected_booth ''VEH_002'' (booth 0 (verdict False))))
       = Some 3
   \<and> websocket (init (Some []) None) = None
   \<and> \<not> cooldown_active (init (Some []) None) ''VEH_001'' (now (booth 0 (verdict True)))
   \<and> snd (process_vehicle_scan (init (Some []) None) ''VEH_001'' (booth 0 (verdict True))) =
        [HttpPost (scan_data (init (Some []) None) (booth 0 (verdict True)) ''VEH_001'' 0),
         GpioOut LED_GREEN True,
         GpioOut BUZZER_PIN True, TimeSleep 0.3, GpioOut BUZZER_PIN False,
         Log INFO ''Registered vehicle detected: VEH_001'' None,
         AsyncSleep 2, GpioOut LED_GREEN False, GpioOut LED_RED False]
   \<and> lit_for LED_GREEN (snd (process_vehicle_scan (init (Some []) None) ''VEH_001'' (booth 0 (verdict True))))
       = Some 2.3"
proof -
  let ?c = connected_booth and ?d = "init (Some []) None"
  let ?wt = "booth 0 (verdict True)" and ?wf = "booth 0 (verdict False)"
  have a1: "\<not> cooldown_active ?c ''VEH_001'' (now ?wt)"
    and a2: "\<not> cooldown_active ?c ''VEH_002'' (now ?wf)"
    and a3: "\<not> cooldown_active ?d ''VEH_001'' (now ?wt)"
    by (simp_all add: connected_booth_def init_def cooldown_active_def)
  have k1: "http ?wt = Response 200 (Parsed (JObj [(''registered'', JBool True)]))"
    and k2: "http ?wf = Response 200 (Parsed (JObj [(''registered'', JBool False)]))"
    by (simp_all add: booth_def verdict_def)
  have g1: "dict_get (JObj [(''registered'', JBool True)]) ''registered'' (JBool False) = Inr (JBool True)"
    and g2: "dict_get (JObj [(''registered'', JBool False)]) ''registered'' (JBool False) = Inr (JBool False)"
    by (simp_all add: dict_get_def)
  have gp: "gpio_ok ?wt" "gpio_ok ?wf" and so: "ws_send_ok ?wt" "ws_send_ok ?wf"
    and n: "now ?wt = 0" "now ?wf = 0"
    by (simp_all add: booth_def)
  have tt: "truthy (JBool True)" and ff: "\<not> truthy (JBool False)" by simp_all
  have wc: "websocket ?c \<noteq> None" and wd: "websocket ?d = None"
    by (simp_all add: connected_booth_def init_def)
  have ap: "''Registered vehicle detected: '' @ ''VEH_001'' = ''Registered vehicle detected: VEH_001''"
    "''Unregistered vehicle detected: '' @ ''VEH_002'' = ''Unregistered vehicle detected: VEH_002''"
    by simp_all
  note t1 = verdict_feedback [OF a1 k1 g1 gp(1) disjI2 [OF so(1)], unfolded n ap]
  note t2 = verdict_feedback [OF a2 k2 g2 gp(2) disjI2 [OF so(2)], unfolded n ap]
  note t3 = verdict_feedback [OF a3 k1 g1 gp(1) disjI1 [OF wd], unfolded n ap]
  note u1 = t1 [THEN conjunct1, THEN mp, OF tt]
  note u2 = t2 [THEN conjunct2, THEN mp, OF ff]
  note u3 = t3 [THEN conjunct1, THEN mp, OF tt]
  have c1: "snd (process_vehicle_scan ?c ''VEH_001'' ?wt) =
        [HttpPost (scan_data ?c ?wt ''VEH_001'' 0),
         GpioOut LED_GREEN True,
         GpioOut BUZZER_PIN True, TimeSleep 0.3, GpioOut BUZZER_PIN False,
         Log INFO ''Registered vehicle detected: VEH_001'' None,
         WsSend (JObj [(''type'', JStr ''vehicle_detected''), (''vehicleId'', JStr ''VEH_001''),
                       (''registered'', JBool True), (''timestamp'', JNum 0)]),
         AsyncSleep 2, GpioOut LED_GREEN False, GpioOut LED_RED False]"
    and l1: "lit_for LED_GREEN (snd (process_vehicle_scan ?c ''VEH_001'' ?wt)) = Some 2.3"
    using u1 [THEN conjunct1] wc apply simp
    by (rule u1 [THEN conjunct2])
  have c2: "snd (process_vehicle_scan ?c ''VEH_002'' ?wf) =
        [HttpPost (scan_data ?c ?wf ''VEH_002'' 0),
         GpioOut LED_RED True,
         GpioOut BUZZER_PIN True, TimeSleep 1, GpioOut BUZZER_PIN False,
         Log WARNING ''Unregistered vehicle detected: VEH_002'' None,
         WsSend (JObj [(''type'', JStr ''unregistered_vehicle''), (''vehicleId'', JStr ''VEH_002''),
                       (''timestamp'', JNum 0)]),
         AsyncSleep 2, GpioOut LED_GREEN False, GpioOut LED_RED False]"
    and l2: "lit_for LED_RED (snd (process_vehicle_scan ?c ''VEH_002'' ?wf)) = Some 3"
    using u2 [THEN conjunct1] wc apply simp
    by (rule u2 [THEN conjunct2])
  have c3: "snd (process_vehicle_scan ?d ''VEH_001'' ?wt) =
        [HttpPost (scan_data ?d ?wt ''VEH_001'' 0),
         GpioOut LED_GREEN True,
         GpioOut BUZZER_PIN True, TimeSleep 0.3, GpioOut BUZZER_PIN False,
         Log INFO ''Registered vehicle detected: VEH_001'' None,
         AsyncSleep 2, GpioOut LED_GREEN False, GpioOut LED_RED False]"
    and l3: "lit_for LED_GREEN (snd (process_vehicle_scan ?d ''VEH_001'' ?wt)) = Some 2.3"
    using u3 [THEN conjunct1] wd apply simp
    by (rule u3 [THEN conjunct2])
  show ?thesis
    by (intro conjI a1 k1 g1 gp(1) so(1) tt c1 l1 a2 k2 g2 ff c2 l2 wd a3 c3 l3)
qed

text \<open>
  Claim C3, as the specification states it, has the LED driven off 2.0 after it was
  driven on and the notification sent on every such scan. For \<open>VEH_001\<close>, registered,
  the green LED stays on for 2.3; for \<open>VEH_002\<close>, not registered, the red LED stays on
  for 3.0. On a booth whose channel is not connected nothing is sent. On a connection
  whose send fails the notification is not delivered and the green LED is never driven
  off. With a GPIO driver that raises, the green LED is never driven on.
\<close>

theorem hold_after_on_counterexample:
  "lit_for LED_GREEN (snd (process_vehicle_scan connected_booth ''VEH_001'' (booth 0 (verdict True))))
       = Some 2.3
   \<and> lit_for LED_GREEN (snd (process_vehicle_scan connected_booth ''VEH_001'' (booth 0 (verdict True))))
       \<noteq> Some 2
   \<and> lit_for LED_RED (snd (process_vehicle_scan connected_booth ''VEH_002'' (booth 0 (verdict False))))
       = Some 3
   \<and> lit_for LED_RED (snd (process_vehicle_scan connected_booth ''VEH_002'' (booth 0 (verdict False))))
       \<noteq> Some 2
   \<and> websocket (init (Some []) None) = None
   \<and> sent (snd (process_vehicle_scan (init (Some []) None) ''VEH_001'' (booth 0 (verdict True)))) = []
   \<and> \<not> ws_send_ok (stale_channel 0 (verdict True))
   \<and> snd (process_vehicle_scan connected_booth ''VEH_001'' (stale_channel 0 (verdict True))) =
        [HttpPost (JObj [(''vehicleId'', JStr ''VEH_001''), (''tollBoothId'', JStr ''TB001''),
                         (''location'', JObj [(''lat'', JNum 12.9716), (''lng'', JNum 77.5946)]),
                         (''timestamp'', JNum 0), (''scanType'', JStr ''rfid'')]),
         GpioOut 18 True,
         GpioOut 23 True, TimeSleep 0.3, GpioOut 23 False,
         Log INFO ''Registered vehicle detected: VEH_001'' None,
         WsSendFailed (JObj [(''type'', JStr ''vehicle_detected''), (''vehicleId'', JStr ''VEH_001''),
                             (''registered'', JBool True), (''timestamp'', JNum 0)]),
         Log ERROR ''Error processing vehicle scan'' (Some ConnectionClosed),
         GpioOut 24 True, AsyncSleep 1, GpioOut 24 False]
   \<and> lit_for LED_GREEN (snd (process_vehicle_scan connected_booth ''VEH_001'' (stale_channel 0 (verdict True))))
       = None
   \<and> \<not> gpio_ok (dead_gpio 0 (verdict True))
   \<and> GpioOut LED_GREEN True
       \<notin> set (snd (process_vehicle_scan connected_booth ''VEH_001'' (dead_gpio 0 (verdict True))))"
  by (simp add: connected_booth_def init_def booth_def verdict_def cooldown_active_def
        stale_channel_def dead_gpio_def
        process_vehicle_scan_def report_scan_def on_verdict_def dict_get_def notify_def
        ws_send_def set_status_led_def buzz_def scan_data_def location_json_def
        vehicle_detected_def unregistered_vehicle_def Let_def
        LED_GREEN_def LED_RED_def LED_YELLOW_def BUZZER_PIN_def)

section \<open>A success response without a true verdict\<close>

lemma dict_get_obj:
  "dict_get (JObj kvs) k d = Inr (case map_of (rev kvs) k of None \<Rightarrow> d | Some v \<Rightarrow> v)"
  by (simp add: dict_get_def)

lemma on_verdict_falsy:
  assumes "dict_get result ''registered'' (JBool False) = Inr r" and "\<not> truthy r"
  shows "on_verdict s w v t (Parsed result) =
           on_verdict s w v t (Parsed (JObj [(''registered'', JBool False)]))"
  using assms by (simp add: on_verdict_def dict_get_obj)

lemma process_vehicle_scan_same_verdict:
  assumes "http w = Response 200 body"
    and "on_verdict s w v (now w) body = on_verdict s w v (now w) body'"
  shows "process_vehicle_scan s v w = process_vehicle_scan s v (w\<lparr>http := Response 200 body'\<rparr>)"
proof -
  have n: "\<And>s m. notify s (w\<lparr>http := Response 200 body'\<rparr>) m = notify s w m"
    by (simp add: notify_def ws_send_def split: option.splits)
  have l: "\<And>c b. set_status_led (w\<lparr>http := Response 200 body'\<rparr>) c b = set_status_led w c b"
    by (simp add: set_status_led_def)
  have b: "\<And>d. buzz (w\<lparr>http := Response 200 body'\<rparr>) d = buzz w d"
    by (simp add: buzz_def)
  have o: "\<And>s b. on_verdict s (w\<lparr>http := Response 200 body'\<rparr>) v (now w) b = on_verdict s w v (now w) b"
    by (simp add: on_verdict_def n l b Let_def split: payload.splits sum.splits)
  have d: "\<And>s. scan_data s (w\<lparr>http := Response 200 body'\<rparr>) v (now w) = scan_data s w v (now w)"
    by (simp add: scan_data_def location_json_def)
  show ?thesis
    using assms
    by (simp add: process_vehicle_scan_def report_scan_def Let_def o d l)
qed

lemma on_verdict_exn:
  assumes "on_verdict s w v t (Parsed (JObj kvs)) = (tr, Some e)"
  shows "e = ConnectionClosed"
  using assms
  by (auto simp: on_verdict_def dict_get_obj notify_def ws_send_def Let_def
           split: option.splits if_splits)

lemma notify_attempt:
  "fst (notify s w m) =
     (case websocket s of
        None \<Rightarrow> []
      | Some c \<Rightarrow> [if ws_send_ok w then WsSend m else WsSendFailed m])"
  by (simp add: notify_def ws_send_def split: option.splits)

lemma on_verdict_unregistered_prefix:
  assumes "dict_get result ''registered'' (JBool False) = Inr r" and "\<not> truthy r"
    and "gpio_ok w"
  shows "\<exists>rest. fst (on_verdict s w v t (Parsed result)) =
           [GpioOut LED_RED True,
            GpioOut BUZZER_PIN True, TimeSleep 1, GpioOut BUZZER_PIN False,
            Log WARNING (''Unregistered vehicle detected: '' @ v) None]
           @ (case websocket s of
                None \<Rightarrow> []
              | Some c \<Rightarrow>
                  [if ws_send_ok w
                   then WsSend (JObj [(''type'', JStr ''unregistered_vehicle''),
                                      (''vehicleId'', JStr v), (''timestamp'', JNum t)])
                   else WsSendFailed (JObj [(''type'', JStr ''unregistered_vehicle''),
                                            (''vehicleId'', JStr v), (''timestamp'', JNum t)])])
           @ rest"
proof -
  let ?m = "unregistered_vehicle v t"
  obtain tr e where n: "notify s w ?m = (tr, e)" by (cases "notify s w ?m") auto
  then have tr: "tr = fst (notify s w ?m)" by simp
  have "fst (on_verdict s w v t (Parsed result)) =
          [GpioOut LED_RED True,
           GpioOut BUZZER_PIN True, TimeSleep 1, GpioOut BUZZER_PIN False,
           Log WARNING (''Unregistered vehicle detected: '' @ v) None]
          @ tr @ (case e of None \<Rightarrow> [AsyncSleep 2, GpioOut LED_GREEN False, GpioOut LED_RED False]
                  | Some x \<Rightarrow> [])"
    using assms n
    by (simp add: on_verdict_def set_status_led_green set_status_led_red buzz_number
          split: option.splits)
  then show ?thesis
    unfolding tr notify_attempt unregistered_vehicle_def by blast
qed

text \<open>
  Claim C10, as the code has it. On an accepted scan answered with status 200 and a JSON
  object that has no \<open>registered\<close> member, or whose \<open>registered\<close> member is not a true
  value, the method does exactly what it does for the response
  \<^verbatim>\<open>{"registered": false}\<close>. With working GPIO that is the red LED and the buzz of 1.0,
  followed, if the channel is connected, by the send of the \<open>unregistered_vehicle\<close>
  notification. No decoding error of the response is logged.
\<close>

theorem missing_registered_is_unregistered:
  assumes acc: "\<not> cooldown_active s v (now w)"
    and ok: "http w = Response 200 (Parsed (JObj kvs))"
    and falsy: "map_of (rev kvs) ''registered'' = None
              \<or> (\<exists>r. map_of (rev kvs) ''registered'' = Some r \<and> \<not> truthy r)"
  shows "process_vehicle_scan s v w
           = process_vehicle_scan s v
               (w\<lparr>http := Response 200 (Parsed (JObj [(''registered'', JBool False)]))\<rparr>)
       \<and> (gpio_ok w \<longrightarrow>
            (\<exists>rest. snd (process_vehicle_scan s v w) =
               [HttpPost (scan_data s w v (now w)),
                GpioOut LED_RED True,
                GpioOut BUZZER_PIN True, TimeSleep 1, GpioOut BUZZER_PIN False,
                Log WARNING (''Unregistered vehicle detected: '' @ v) None]
               @ (case websocket s of
                    None \<Rightarrow> []
                  | Some c \<Rightarrow>
                      [if ws_send_ok w
                       then WsSend (JObj [(''type'', JStr ''unregistered_vehicle''),
                                          (''vehicleId'', JStr v),
                                          (''timestamp'', JNum (now w))])
                       else WsSendFailed (JObj [(''type'', JStr ''unregistered_vehicle''),
                                                (''vehicleId'', JStr v),
                                                (''timestamp'', JNum (now w))])])
               @ rest))
       \<and> Log ERROR ''Error processing vehicle scan'' (Some JSONDecodeError)
            \<notin> set (snd (process_vehicle_scan s v w))
       \<and> Log ERROR ''Error processing vehicle scan'' (Some AttributeError)
            \<notin> set (snd (process_vehicle_scan s v w))"
proof -
  obtain r where r: "dict_get (JObj kvs) ''registered'' (JBool False) = Inr r" and f: "\<not> truthy r"
    using falsy by (auto simp: dict_get_obj)
  have same: "on_verdict s w v (now w) (Parsed (JObj kvs))
                = on_verdict s w v (now w) (Parsed (JObj [(''registered'', JBool False)]))"
    by (rule on_verdict_falsy [OF r f])
  have 1: "process_vehicle_scan s v w
           = process_vehicle_scan s v
               (w\<lparr>http := Response 200 (Parsed (JObj [(''registered'', JBool False)]))\<rparr>)"
    by (rule process_vehicle_scan_same_verdict [OF ok same])
  have 2: "\<exists>rest. snd (process_vehicle_scan s v w) =
               [HttpPost (scan_data s w v (now w)),
                GpioOut LED_RED True,
                GpioOut BUZZER_PIN True, TimeSleep 1, GpioOut BUZZER_PIN False,
                Log WARNING (''Unregistered vehicle detected: '' @ v) None]
               @ (case websocket s of
                    None \<Rightarrow> []
                  | Some c \<Rightarrow>
                      [if ws_send_ok w
                       then WsSend (JObj [(''type'', JStr ''unregistered_vehicle''),
                                          (''vehicleId'', JStr v),
                                          (''timestamp'', JNum (now w))])
                       else WsSendFailed (JObj [(''type'', JStr ''unregistered_vehicle''),
                                                (''vehicleId'', JStr v),
                                                (''timestamp'', JNum (now w))])])
               @ rest"
    if g: "gpio_ok w"
  proof -
    from on_verdict_unregistered_prefix [OF r f g, of s v "now w"]
    obtain rest where p: "fst (on_verdict s w v (now w) (Parsed (JObj kvs))) =
           [GpioOut LED_RED True,
            GpioOut BUZZER_PIN True, TimeSleep 1, GpioOut BUZZER_PIN False,
            Log WARNING (''Unregistered vehicle detected: '' @ v) None]
           @ (case websocket s of
                None \<Rightarrow> []
              | Some c \<Rightarrow>
                  [if ws_send_ok w
                   then WsSend (JObj [(''type'', JStr ''unregistered_vehicle''),
                                      (''vehicleId'', JStr v), (''timestamp'', JNum (now w))])
                   else WsSendFailed (JObj [(''type'', JStr ''unregistered_vehicle''),
                                            (''vehicleId'', JStr v), (''timestamp'', JNum (now w))])])
           @ rest"
      by blast
    show ?thesis
    proof (cases "on_verdict s w v (now w) (Parsed (JObj kvs))")
      case (Pair tr e)
      with p show ?thesis
        by (cases e) (auto simp: process_vehicle_scan_200 [OF acc ok])
    qed
  qed
  have 3: "Log ERROR ''Error processing vehicle scan'' (Some x)
            \<notin> set (snd (process_vehicle_scan s v w))" if x: "x \<noteq> ConnectionClosed" for x
  proof (cases "on_verdict s w v (now w) (Parsed (JObj kvs))")
    case (Pair tr e)
    have notr: "Log ERROR ''Error processing vehicle scan'' (Some x) \<notin> set tr"
      using Pair r f
      by (auto simp: on_verdict_def notify_def ws_send_def set_status_led_def buzz_def Let_def
               split: option.splits if_splits)
    show ?thesis
    proof (cases e)
      case None
      then show ?thesis using Pair notr
        by (simp add: process_vehicle_scan_200 [OF acc ok])
    next
      case (Some e')
      then have "e' = ConnectionClosed" using Pair on_verdict_exn by blast
      then show ?thesis using Pair Some notr x
        by (auto simp: process_vehicle_scan_200 [OF acc ok] set_status_led_def)
    qed
  qed
  show ?thesis using 1 2 3 by simp
qed


theorem missing_registered_is_unregistered_witness:
  "\<not> cooldown_active connected_booth ''VEH_004'' (now (booth 0 (Response 200 (Parsed (JObj [])))))
   \<and> http (booth 0 (Response 200 (Parsed (JObj [])))) = Response 200 (Parsed (JObj []))
   \<and> map_of (rev ([] :: (string \<times> json) list)) ''registered'' = None
   \<and> gpio_ok (booth 0 (Response 200 (Parsed (JObj []))))
   \<and> process_vehicle_scan connected_booth ''VEH_004'' (booth 0 (Response 200 (Parsed (JObj []))))
       = process_vehicle_scan connected_booth ''VEH_004'' (booth 0 (verdict False))
   \<and> take 7 (snd (process_vehicle_scan connected_booth ''VEH_004''
                    (booth 0 (Response 200 (Parsed (JObj []))))))
       = [HttpPost (scan_data connected_booth (booth 0 (Response 200 (Parsed (JObj [])))) ''VEH_004'' 0),
          GpioOut LED_RED True,
          GpioOut BUZZER_PIN True, TimeSleep 1, GpioOut BUZZER_PIN False,
          Log WARNING ''Unregistered vehicle detected: VEH_004'' None,
          WsSend (JObj [(''type'', JStr ''unregistered_vehicle''), (''vehicleId'', JStr ''VEH_004''),
                        (''timestamp'', JNum 0)])]
   \<and> map_of (rev [(''registered'', JNull)]) ''registered'' = Some JNull
   \<and> \<not> truthy JNull
   \<and> process_vehicle_scan connected_booth ''VEH_004''
         (booth 0 (Response 200 (Parsed (JObj [(''registered'', JNull)]))))
       = process_vehicle_scan connected_booth ''VEH_004'' (booth 0 (verdict False))"
proof -
  let ?s = connected_booth
  let ?w1 = "booth 0 (Response 200 (Parsed (JObj [])))"
  let ?w2 = "booth 0 (Response 200 (Parsed (JObj [(''registered'', JNull)])))"
  have a1: "\<not> cooldown_active ?s ''VEH_004'' (now ?w1)"
    and a2: "\<not> cooldown_active ?s ''VEH_004'' (now ?w2)"
    by (simp_all add: connected_booth_def init_def cooldown_active_def)
  have k1: "http ?w1 = Response 200 (Parsed (JObj []))"
    and k2: "http ?w2 = Response 200 (Parsed (JObj [(''registered'', JNull)]))"
    by (simp_all add: booth_def)
  have m1: "map_of (rev ([] :: (string \<times> json) list)) ''registered'' = None" by simp
  have m2: "map_of (rev [(''registered'', JNull)]) ''registered'' = Some JNull" by simp
  have n2: "\<not> truthy JNull" by simp
  have g: "gpio_ok ?w1" and so: "ws_send_ok ?w1" by (simp_all add: booth_def)
  have c: "websocket ?s = Some WsConn" by (simp add: connected_booth_def)
  have u1: "?w1\<lparr>http := Response 200 (Parsed (JObj [(''registered'', JBool False)]))\<rparr>
              = booth 0 (verdict False)"
    and u2: "?w2\<lparr>http := Response 200 (Parsed (JObj [(''registered'', JBool False)]))\<rparr>
              = booth 0 (verdict False)"
    by (simp_all add: booth_def verdict_def)
  have n: "now ?w1 = 0" by (simp add: booth_def)
  have ap: "''Unregistered vehicle detected: '' @ ''VEH_004'' = ''Unregistered vehicle detected: VEH_004''"
    by simp
  have f1: "map_of (rev ([] :: (string \<times> json) list)) ''registered'' = None
            \<or> (\<exists>r. map_of (rev ([] :: (string \<times> json) list)) ''registered'' = Some r \<and> \<not> truthy r)"
    using m1 by simp
  have f2: "map_of (rev [(''registered'', JNull)]) ''registered'' = None
            \<or> (\<exists>r. map_of (rev [(''registered'', JNull)]) ''registered'' = Some r \<and> \<not> truthy r)"
    using m2 n2 by simp
  note t1 = missing_registered_is_unregistered [OF a1 k1 f1, unfolded u1 n ap]
  note t2 = missing_registered_is_unregistered [OF a2 k2 f2, unfolded u2]
  have r1: "process_vehicle_scan ?s ''VEH_004'' ?w1
              = process_vehicle_scan ?s ''VEH_004'' (booth 0 (verdict False))"
    by (rule t1 [THEN conjunct1])
  from mp [OF t1 [THEN conjunct2, THEN conjunct1] g]
  obtain rest where "snd (process_vehicle_scan ?s ''VEH_004'' ?w1) =
       [HttpPost (scan_data ?s ?w1 ''VEH_004'' 0),
        GpioOut LED_RED True,
        GpioOut BUZZER_PIN True, TimeSleep 1, GpioOut BUZZER_PIN False,
        Log WARNING ''Unregistered vehicle detected: VEH_004'' None]
       @ (case websocket ?s of
            None \<Rightarrow> []
          | Some c \<Rightarrow>
              [if ws_send_ok ?w1
               then WsSend (JObj [(''type'', JStr ''unregistered_vehicle''),
                                  (''vehicleId'', JStr ''VEH_004''), (''timestamp'', JNum 0)])
               else WsSendFailed (JObj [(''type'', JStr ''unregistered_vehicle''),
                                        (''vehicleId'', JStr ''VEH_004''), (''timestamp'', JNum 0)])])
       @ rest"
    by blast
  then have r2: "take 7 (snd (process_vehicle_scan ?s ''VEH_004'' ?w1))
       = [HttpPost (scan_data ?s ?w1 ''VEH_004'' 0),
          GpioOut LED_RED True,
          GpioOut BUZZER_PIN True, TimeSleep 1, GpioOut BUZZER_PIN False,
          Log WARNING ''Unregistered vehicle detected: VEH_004'' None,
          WsSend (JObj [(''type'', JStr ''unregistered_vehicle''), (''vehicleId'', JStr ''VEH_004''),
                        (''timestamp'', JNum 0)])]"
    by (simp add: c so)
  have r3: "process_vehicle_scan ?s ''VEH_004'' ?w2
              = process_vehicle_scan ?s ''VEH_004'' (booth 0 (verdict False))"
    by (rule t2 [THEN conjunct1])
  show ?thesis
    by (intro conjI a1 k1 m1 g r1 r2 m2 n2 r3)
qed

text \<open>
  Claim C10, as the specification states it, covers every 200 body without a
  \<open>registered\<close> field. A body of \<^verbatim>\<open>null\<close> or \<^verbatim>\<open>[]\<close> has none, and is handled as an
  error: the lookup raises, the failure is logged and the red LED is pulsed for 1.0, with
  no buzz and no notification, unlike the run for \<^verbatim>\<open>{"registered": false}\<close>. For the
  body \<^verbatim>\<open>{}\<close>, a GPIO driver that raises leaves the red LED undriven, and a booth whose
  channel is not connected sends nothing.
\<close>

theorem not_an_object_counterexample:
  "snd (process_vehicle_scan connected_booth ''VEH_004'' (booth 0 (Response 200 (Parsed JNull)))) =
        [HttpPost (JObj [(''vehicleId'', JStr ''VEH_004''), (''tollBoothId'', JStr ''TB001''),
                         (''location'', JObj [(''lat'', JNum 12.9716), (''lng'', JNum 77.5946)]),
                         (''timestamp'', JNum 0), (''scanType'', JStr ''rfid'')]),
         Log ERROR ''Error processing vehicle scan'' (Some AttributeError),
         GpioOut 24 True, AsyncSleep 1, GpioOut 24 False]
   \<and> snd (process_vehicle_scan connected_booth ''VEH_004'' (booth 0 (Response 200 (Parsed (JArr []))))) =
        [HttpPost (JObj [(''vehicleId'', JStr ''VEH_004''), (''tollBoothId'', JStr ''TB001''),
                         (''location'', JObj [(''lat'', JNum 12.9716), (''lng'', JNum 77.5946)]),
                         (''timestamp'', JNum 0), (''scanType'', JStr ''rfid'')]),
         Log ERROR ''Error processing vehicle scan'' (Some AttributeError),
         GpioOut 24 True, AsyncSleep 1, GpioOut 24 False]
   \<and> snd (process_vehicle_scan connected_booth ''VEH_004'' (booth 0 (verdict False))) =
        [HttpPost (JObj [(''vehicleId'', JStr ''VEH_004''), (''tollBoothId'', JStr ''TB001''),
                         (''location'', JObj [(''lat'', JNum 12.9716), (''lng'', JNum 77.5946)]),
                         (''timestamp'', JNum 0), (''scanType'', JStr ''rfid'')]),
         GpioOut 24 True,
         GpioOut 23 True, TimeSleep 1, GpioOut 23 False,
         Log WARNING ''Unregistered vehicle detected: VEH_004'' None,
         WsSend (JObj [(''type'', JStr ''unregistered_vehicle''), (''vehicleId'', JStr ''VEH_004''),
                       (''timestamp'', JNum 0)]),
         AsyncSleep 2, GpioOut 18 False, GpioOut 24 False]
   \<and> \<not> gpio_ok (dead_gpio 0 (Response 200 (Parsed (JObj []))))
   \<and> GpioOut LED_RED True
       \<notin> set (snd (process_vehicle_scan connected_booth ''VEH_004''
                     (dead_gpio 0 (Response 200 (Parsed (JObj []))))))
   \<and> websocket (init (Some []) None) = None
   \<and> sent (snd (process_vehicle_scan (init (Some []) None) ''VEH_004''
                   (booth 0 (Response 200 (Parsed (JObj [])))))) = []"
  by (simp add: connected_booth_def init_def booth_def verdict_def cooldown_active_def
        dead_gpio_def
        process_vehicle_scan_def report_scan_def on_verdict_def dict_get_def notify_def
        ws_send_def set_status_led_def buzz_def scan_data_def location_json_def
        vehicle_detected_def unregistered_vehicle_def Let_def
        LED_GREEN_def LED_RED_def LED_YELLOW_def BUZZER_PIN_def)

section \<open>Notifications without a channel\<close>

lemma sent_append [simp]: "sent (xs @ ys) = sent xs @ sent ys"
  by (induction xs rule: sent.induct) simp_all

lemma posts_append [simp]: "posts (xs @ ys) = posts xs @ posts ys"
  by (induction xs rule: posts.induct) simp_all

lemma set_status_led_quiet [simp]:
  "sent (set_status_led w c b) = []" "posts (set_status_led w c b) = []"
  "WsSendFailed m \<notin> set (set_status_led w c b)"
  by (simp_all add: set_status_led_def Let_def split: option.splits)

lemma buzz_quiet [simp]:
  "sent (buzz w d) = []" "posts (buzz w d) = []" "WsSendFailed m \<notin> set (buzz w d)"
  by (simp_all add: buzz_def split: option.splits)

lemma notify_disconnected: "websocket s = None \<Longrightarrow> notify s w m = ([], None)"
  by (simp add: notify_def)

lemma on_verdict_disconnected:
  assumes "websocket s = None"
  shows "sent (fst (on_verdict s w v t body)) = []"
    and "WsSendFailed m \<notin> set (fst (on_verdict s w v t body))"
  using assms
  by (simp_all add: on_verdict_def notify_disconnected Let_def
        split: payload.splits sum.splits)

lemma on_verdict_posts [simp]: "posts (fst (on_verdict s w v t body)) = []"
  by (simp add: on_verdict_def notify_def ws_send_def Let_def
        split: payload.splits sum.splits option.splits prod.splits)

lemma report_scan_last_scan_time [simp]:
  "report_scan (s\<lparr>last_scan_time := m\<rparr>) w v t = report_scan s w v t"
  by (simp add: report_scan_def Let_def split: http_outcome.splits)

lemma process_vehicle_scan_accepted:
  assumes "\<not> cooldown_active s v (now w)"
  shows "snd (process_vehicle_scan s v w) =
           (case report_scan s w v (now w) of
              (tr, None) \<Rightarrow> tr
            | (tr, Some e) \<Rightarrow>
                tr @ [Log ERROR ''Error processing vehicle scan'' (Some e)]
                   @ set_status_led w (JStr ''red'') True @ [AsyncSleep 1]
                   @ set_status_led w (JStr ''red'') False)"
  using assms by (simp add: process_vehicle_scan_def Let_def split: prod.splits option.splits)

lemma report_scan_fst:
  "fst (report_scan s w v t) =
     (case http w of
        Unreachable \<Rightarrow> [HttpPost (scan_data s w v t)]
      | Response status_code body \<Rightarrow>
          if status_code = 200
          then HttpPost (scan_data s w v t) # fst (on_verdict s w v t body)
          else HttpPost (scan_data s w v t) # set_status_led w (JStr ''yellow'') True
                 @ [Log ERROR ''Backend error'' None, AsyncSleep 1]
                 @ set_status_led w (JStr ''yellow'') False)"
  by (simp add: report_scan_def Let_def split: http_outcome.splits prod.splits)

lemma report_scan_disconnected:
  assumes "websocket s = None"
  shows "sent (fst (report_scan s w v t)) = []"
    and "WsSendFailed m \<notin> set (fst (report_scan s w v t))"
  using on_verdict_disconnected [OF assms]
  by (simp_all add: report_scan_fst split: http_outcome.splits)

lemma process_vehicle_scan_disconnected:
  assumes "websocket s = None"
  shows "sent (snd (process_vehicle_scan s v w)) = []"
    and "WsSendFailed m \<notin> set (snd (process_vehicle_scan s v w))"
proof -
  show "sent (snd (process_vehicle_scan s v w)) = []"
  proof (cases "cooldown_active s v (now w)")
    case True
    then show ?thesis by (simp add: process_vehicle_scan_suppressed)
  next
    case False
    then show ?thesis
      using report_scan_disconnected(1) [OF assms, of w v "now w"]
      by (cases "report_scan s w v (now w)")
         (auto simp: process_vehicle_scan_accepted split: option.splits)
  qed
  show "WsSendFailed m \<notin> set (snd (process_vehicle_scan s v w))"
  proof (cases "cooldown_active s v (now w)")
    case True
    then show ?thesis by (simp add: process_vehicle_scan_suppressed)
  next
    case False
    then show ?thesis
      using report_scan_disconnected(2) [OF assms, of m w v "now w"]
      by (cases "report_scan s w v (now w)")
         (auto simp: process_vehicle_scan_accepted split: option.splits)
  qed
qed

lemma on_verdict_dropped:
  assumes "websocket s = None" and "gpio_ok w"
    and "dict_get result ''registered'' (JBool False) = Inr r"
  shows "on_verdict s w v t (Parsed result) =
           ((if truthy r
             then [GpioOut LED_GREEN True,
                   GpioOut BUZZER_PIN True, TimeSleep 0.3, GpioOut BUZZER_PIN False,
                   Log INFO (''Registered vehicle detected: '' @ v) None]
             else [GpioOut LED_RED True,
                   GpioOut BUZZER_PIN True, TimeSleep 1, GpioOut BUZZER_PIN False,
                   Log WARNING (''Unregistered vehicle detected: '' @ v) None])
            @ [AsyncSleep 2, GpioOut LED_GREEN False, GpioOut LED_RED False], None)"
  using assms
  by (simp add: on_verdict_def notify_disconnected set_status_led_green set_status_led_red
        buzz_number)

lemma connect_websocket_sent:
  assumes "ws_connect_ok w"
  shows "sent (snd (connect_websocket s w))
           = (if ws_send_ok w then [hardware_status (s\<lparr>websocket := Some WsConn\<rparr>) w] else [])"
  using assms
  by (simp add: connect_websocket_def send_hardware_status_def ws_send_def Let_def)

text \<open>
  The guard of the notification. While \<^verbatim>\<open>self.websocket\<close> is \<open>None\<close>, the notification
  of a scan is dropped: nothing is sent or attempted on the channel and no exception
  arises from it, so a scan answered with a verdict runs through its feedback, the hold
  of 2.0 and the clearing of the LEDs. The method keeps nothing but the time of the scan,
  and a later successful connect sends the status payload and nothing else.
\<close>

theorem notification_dropped:
  assumes off: "websocket s = None"
  shows "notify s w m = ([], None)
       \<and> sent (snd (process_vehicle_scan s v w)) = []
       \<and> (\<forall>m'. WsSendFailed m' \<notin> set (snd (process_vehicle_scan s v w)))
       \<and> (\<not> cooldown_active s v (now w) \<and> http w = Response 200 (Parsed result)
            \<and> dict_get result ''registered'' (JBool False) = Inr r \<and> gpio_ok w \<longrightarrow>
          snd (process_vehicle_scan s v w) =
            HttpPost (scan_data s w v (now w))
            # (if truthy r
               then [GpioOut LED_GREEN True,
                     GpioOut BUZZER_PIN True, TimeSleep 0.3, GpioOut BUZZER_PIN False,
                     Log INFO (''Registered vehicle detected: '' @ v) None]
               else [GpioOut LED_RED True,
                     GpioOut BUZZER_PIN True, TimeSleep 1, GpioOut BUZZER_PIN False,
                     Log WARNING (''Unregistered vehicle detected: '' @ v) None])
            @ [AsyncSleep 2, GpioOut LED_GREEN False, GpioOut LED_RED False])
       \<and> fst (process_vehicle_scan s v w) =
            (if cooldown_active s v (now w) then s
             else s\<lparr>last_scan_time := (last_scan_time s)(v \<mapsto> now w)\<rparr>)
       \<and> (ws_connect_ok w' \<longrightarrow>
            sent (snd (connect_websocket (fst (process_vehicle_scan s v w)) w'))
              = (if ws_send_ok w'
                 then [hardware_status ((fst (process_vehicle_scan s v w))\<lparr>websocket := Some WsConn\<rparr>) w']
                 else []))"
proof (intro conjI impI allI)
  show "notify s w m = ([], None)" by (rule notify_disconnected [OF off])
  show "sent (snd (process_vehicle_scan s v w)) = []"
    by (rule process_vehicle_scan_disconnected(1) [OF off])
  show "WsSendFailed m' \<notin> set (snd (process_vehicle_scan s v w))" for m'
    by (rule process_vehicle_scan_disconnected(2) [OF off])
  show "fst (process_vehicle_scan s v w) =
            (if cooldown_active s v (now w) then s
             else s\<lparr>last_scan_time := (last_scan_time s)(v \<mapsto> now w)\<rparr>)"
    by (rule process_vehicle_scan_state)
next
  assume h: "\<not> cooldown_active s v (now w) \<and> http w = Response 200 (Parsed result)
            \<and> dict_get result ''registered'' (JBool False) = Inr r \<and> gpio_ok w"
  then have acc: "\<not> cooldown_active s v (now w)" and ok: "http w = Response 200 (Parsed result)"
    and reg: "dict_get result ''registered'' (JBool False) = Inr r" and gpio: "gpio_ok w"
    by simp_all
  show "snd (process_vehicle_scan s v w) =
            HttpPost (scan_data s w v (now w))
            # (if truthy r
               then [GpioOut LED_GREEN True,
                     GpioOut BUZZER_PIN True, TimeSleep 0.3, GpioOut BUZZER_PIN False,
                     Log INFO (''Registered vehicle detected: '' @ v) None]
               else [GpioOut LED_RED True,
                     GpioOut BUZZER_PIN True, TimeSleep 1, GpioOut BUZZER_PIN False,
                     Log WARNING (''Unregistered vehicle detected: '' @ v) None])
            @ [AsyncSleep 2, GpioOut LED_GREEN False, GpioOut LED_RED False]"
    by (simp add: process_vehicle_scan_200 [OF acc ok] on_verdict_dropped [OF off gpio reg])
next
  assume "ws_connect_ok w'"
  then show "sent (snd (connect_websocket (fst (process_vehicle_scan s v w)) w'))
              = (if ws_send_ok w'
                 then [hardware_status ((fst (process_vehicle_scan s v w))\<lparr>websocket := Some WsConn\<rparr>) w']
                 else [])"
    by (rule connect_websocket_sent)
qed


theorem notification_dropped_witness:
  "websocket (init (Some []) None) = None
   \<and> notify (init (Some []) None) (booth 0 (verdict True)) (vehicle_detected ''VEH_001'' 0)
       = ([], None)
   \<and> sent (snd (process_vehicle_scan (init (Some []) None) ''VEH_001'' (booth 0 (verdict True)))) = []
   \<and> \<not> cooldown_active (init (Some []) None) ''VEH_001'' (now (booth 0 (verdict True)))
   \<and> http (booth 0 (verdict True)) = Response 200 (Parsed (JObj [(''registered'', JBool True)]))
   \<and> dict_get (JObj [(''registered'', JBool True)]) ''registered'' (JBool False) = Inr (JBool True)
   \<and> gpio_ok (booth 0 (verdict True))
   \<and> snd (process_vehicle_scan (init (Some []) None) ''VEH_001'' (booth 0 (verdict True))) =
        [HttpPost (scan_data (init (Some []) None) (booth 0 (verdict True)) ''VEH_001'' 0),
         GpioOut LED_GREEN True,
         GpioOut BUZZER_PIN True, TimeSleep 0.3, GpioOut BUZZER_PIN False,
         Log INFO ''Registered vehicle detected: VEH_001'' None,
         AsyncSleep 2, GpioOut LED_GREEN False, GpioOut LED_RED False]
   \<and> ws_connect_ok (booth 9 Unreachable)
   \<and> sent (snd (connect_websocket
              (fst (process_vehicle_scan (init (Some []) None) ''VEH_001'' (booth 0 (verdict True))))
              (booth 9 Unreachable)))
       = [hardware_status
            ((fst (process_vehicle_scan (init (Some []) None) ''VEH_001'' (booth 0 (verdict True))))
               \<lparr>websocket := Some WsConn\<rparr>)
            (booth 9 Unreachable)]"
proof -
  let ?s = "init (Some []) None"
  let ?w = "booth 0 (verdict True)"
  let ?w' = "booth 9 Unreachable"
  have off: "websocket ?s = None" by (simp add: init_def)
  have acc: "\<not> cooldown_active ?s ''VEH_001'' (now ?w)"
    by (simp add: init_def cooldown_active_def)
  have ok: "http ?w = Response 200 (Parsed (JObj [(''registered'', JBool True)]))"
    by (simp add: booth_def verdict_def)
  have reg: "dict_get (JObj [(''registered'', JBool True)]) ''registered'' (JBool False)
               = Inr (JBool True)"
    by (simp add: dict_get_def)
  have gpio: "gpio_ok ?w" and conn: "ws_connect_ok ?w'" and send: "ws_send_ok ?w'"
    and n: "now ?w = 0"
    by (simp_all add: booth_def)
  note t = notification_dropped [OF off, where w = ?w and v = "''VEH_001''"
      and m = "vehicle_detected ''VEH_001'' 0" and result = "JObj [(''registered'', JBool True)]"
      and r = "JBool True" and w' = ?w']
  have c1: "notify ?s ?w (vehicle_detected ''VEH_001'' 0) = ([], None)"
    by (rule t [THEN conjunct1])
  have c2: "sent (snd (process_vehicle_scan ?s ''VEH_001'' ?w)) = []"
    by (rule t [THEN conjunct2, THEN conjunct1])
  have c3: "snd (process_vehicle_scan ?s ''VEH_001'' ?w) =
        [HttpPost (scan_data ?s ?w ''VEH_001'' 0),
         GpioOut LED_GREEN True,
         GpioOut BUZZER_PIN True, TimeSleep 0.3, GpioOut BUZZER_PIN False,
         Log INFO ''Registered vehicle detected: VEH_001'' None,
         AsyncSleep 2, GpioOut LED_GREEN False, GpioOut LED_RED False]"
    using mp [OF t [THEN conjunct2, THEN conjunct2, THEN conjunct2, THEN conjunct1]]
      acc ok reg gpio
    by (simp add: n)
  have c4: "sent (snd (connect_websocket (fst (process_vehicle_scan ?s ''VEH_001'' ?w)) ?w'))
       = [hardware_status ((fst (process_vehicle_scan ?s ''VEH_001'' ?w))\<lparr>websocket := Some WsConn\<rparr>) ?w']"
    using mp [OF t [THEN conjunct2, THEN conjunct2, THEN conjunct2, THEN conjunct2, THEN conjunct2] conn]
      send
    by simp
  show ?thesis
    by (intro conjI off c1 c2 acc ok reg gpio c3 conn c4)
qed

text \<open>The status payload of the connected booth at clock reading 9.\<close>

lemma hardware_status_payload:
  "hardware_status connected_booth (booth 9 Unreachable) =
     JObj [(''type'', JStr ''hardware_status''),
           (''tollBoothId'', JStr ''TB001''),
           (''status'', JStr ''active''),
           (''location'', JObj [(''lat'', JNum 12.9716), (''lng'', JNum 77.5946)]),
           (''timestamp'', JNum 9),
           (''hardware'', JObj [(''rfid'', JBool True), (''camera'', JBool False),
                                (''gpio'', JBool True)])]"
  by (simp add: hardware_status_def location_json_def connected_booth_def init_def booth_def)

text \<open>
  Claim C7 asks that a notification attempted while the channel is not connected be
  dropped silently, with no error and no effect on the processing of the scan. The guard
  of the send only tests whether \<^verbatim>\<open>self.websocket\<close> is set. On a connection that has
  closed while the attribute still holds it, the send raises inside the \<^verbatim>\<open>try\<close> block:
  the scan of the registered \<open>VEH_001\<close> is logged as an error and shown as a red pulse,
  the hold and the clearing of the LEDs are skipped, and the green LED is never driven
  off; the scan of the unregistered \<open>VEH_002\<close> is logged as an error, too.
\<close>

theorem held_connection_send_fails:
  "websocket connected_booth = Some WsConn
   \<and> \<not> ws_send_ok (stale_channel 0 (verdict True))
   \<and> \<not> cooldown_active connected_booth ''VEH_001'' (now (stale_channel 0 (verdict True)))
   \<and> snd (process_vehicle_scan connected_booth ''VEH_001'' (stale_channel 0 (verdict True))) =
        [HttpPost (JObj [(''vehicleId'', JStr ''VEH_001''), (''tollBoothId'', JStr ''TB001''),
                         (''location'', JObj [(''lat'', JNum 12.9716), (''lng'', JNum 77.5946)]),
                         (''timestamp'', JNum 0), (''scanType'', JStr ''rfid'')]),
         GpioOut 18 True,
         GpioOut 23 True, TimeSleep 0.3, GpioOut 23 False,
         Log INFO ''Registered vehicle detected: VEH_001'' None,
         WsSendFailed (JObj [(''type'', JStr ''vehicle_detected''), (''vehicleId'', JStr ''VEH_001''),
                             (''registered'', JBool True), (''timestamp'', JNum 0)]),
         Log ERROR ''Error processing vehicle scan'' (Some ConnectionClosed),
         GpioOut 24 True, AsyncSleep 1, GpioOut 24 False]
   \<and> lit_for LED_GREEN
        (snd (process_vehicle_scan connected_booth ''VEH_001'' (stale_channel 0 (verdict True))))
       = None
   \<and> snd (process_vehicle_scan connected_booth ''VEH_002'' (stale_channel 0 (verdict False))) =
        [HttpPost (JObj [(''vehicleId'', JStr ''VEH_002''), (''tollBoothId'', JStr ''TB001''),
                         (''location'', JObj [(''lat'', JNum 12.9716), (''lng'', JNum 77.5946)]),
                         (''timestamp'', JNum 0), (''scanType'', JStr ''rfid'')]),
         GpioOut 24 True,
         GpioOut 23 True, TimeSleep 1, GpioOut 23 False,
         Log WARNING ''Unregistered vehicle detected: VEH_002'' None,
         WsSendFailed (JObj [(''type'', JStr ''unregistered_vehicle''), (''vehicleId'', JStr ''VEH_002''),
                             (''timestamp'', JNum 0)]),
         Log ERROR ''Error processing vehicle scan'' (Some ConnectionClosed),
         GpioOut 24 True, AsyncSleep 1, GpioOut 24 False]"
  by (simp add: connected_booth_def init_def booth_def verdict_def cooldown_active_def
        stale_channel_def
        process_vehicle_scan_def report_scan_def on_verdict_def dict_get_def notify_def
        ws_send_def set_status_led_def buzz_def scan_data_def location_json_def
        vehicle_detected_def unregistered_vehicle_def Let_def
        LED_GREEN_def LED_RED_def LED_YELLOW_def BUZZER_PIN_def)

section \<open>Reporting at most once\<close>

lemma report_scan_posts: "posts (fst (report_scan s w v t)) = [scan_data s w v t]"
  by (simp add: report_scan_fst split: http_outcome.splits)

lemma process_vehicle_scan_posts:
  "posts (snd (process_vehicle_scan s v w))
     = (if cooldown_active s v (now w) then [] else [scan_data s w v (now w)])"
proof (cases "cooldown_active s v (now w)")
  case True
  then show ?thesis by (simp add: process_vehicle_scan_suppressed)
next
  case False
  then show ?thesis
    using report_scan_posts [of s w v "now w"]
    by (cases "report_scan s w v (now w)")
       (auto simp: process_vehicle_scan_accepted split: option.splits)
qed

text \<open>
  Claim C8, as the code has it. An accepted scan whose report fails, the backend being
  unreachable or answering with a status other than 200, posts its report exactly once.
  Its time is recorded when it is accepted, whatever the backend then does, so a scan of
  the same identifier for which the cooldown test holds, the float difference of the two
  readings being below the cooldown, only logs: it posts nothing and leaves the object
  unchanged. That is so in particular where the float subtraction is exact and the scan
  comes less than the cooldown later.
\<close>

theorem report_at_most_once:
  assumes acc: "\<not> cooldown_active s v (now w1)"
    and fail: "http w1 = Unreachable \<or> (\<exists>code body. http w1 = Response code body \<and> code \<noteq> 200)"
  shows "posts (snd (process_vehicle_scan s v w1)) = [scan_data s w1 v (now w1)]
       \<and> last_scan_time (fst (process_vehicle_scan s v w1)) v = Some (now w1)
       \<and> (fl_less (float_sub (now w2) (now w1)) (scan_cooldown s)
            \<or> float_sub (now w2) (now w1) = Finite (now w2 - now w1)
              \<and> now w2 - now w1 < scan_cooldown s \<longrightarrow>
            process_vehicle_scan (fst (process_vehicle_scan s v w1)) v w2
              = (fst (process_vehicle_scan s v w1),
                 [Log INFO (''Scan cooldown active for '' @ v) None])
          \<and> posts (snd (process_vehicle_scan (fst (process_vehicle_scan s v w1)) v w2)) = [])"
proof -
  let ?s1 = "fst (process_vehicle_scan s v w1)"
  have s1: "?s1 = s\<lparr>last_scan_time := (last_scan_time s)(v \<mapsto> now w1)\<rparr>"
    using acc by (simp add: process_vehicle_scan_state)
  have 1: "posts (snd (process_vehicle_scan s v w1)) = [scan_data s w1 v (now w1)]"
    using acc by (simp add: process_vehicle_scan_posts)
  have 2: "last_scan_time ?s1 v = Some (now w1)" by (simp add: s1)
  have 3: "process_vehicle_scan ?s1 v w2 = (?s1, [Log INFO (''Scan cooldown active for '' @ v) None])
           \<and> posts (snd (process_vehicle_scan ?s1 v w2)) = []"
    if soon: "fl_less (float_sub (now w2) (now w1)) (scan_cooldown s)
            \<or> float_sub (now w2) (now w1) = Finite (now w2 - now w1)
              \<and> now w2 - now w1 < scan_cooldown s"
  proof -
    from soon have "fl_less (float_sub (now w2) (now w1)) (scan_cooldown s)" by auto
    then have act: "cooldown_active ?s1 v (now w2)"
      unfolding s1 by (simp add: cooldown_active_after)
    show ?thesis
      using process_vehicle_scan_suppressed [OF act] act by (simp add: process_vehicle_scan_posts)
  qed
  show ?thesis using 1 2 3 by blast
qed

theorem report_at_most_once_witness:
  "\<not> cooldown_active (init (Some []) None) ''VEH_003'' (now (booth 0 Unreachable))
   \<and> http (booth 0 Unreachable) = Unreachable
   \<and> float_sub (now (booth 4 Unreachable)) (now (booth 0 Unreachable))
       = Finite (now (booth 4 Unreachable) - now (booth 0 Unreachable))
   \<and> now (booth 4 Unreachable) - now (booth 0 Unreachable) < scan_cooldown (init (Some []) None)
   \<and> fl_less (float_sub (now (booth 4 Unreachable)) (now (booth 0 Unreachable)))
        (scan_cooldown (init (Some []) None))
   \<and> posts (snd (process_vehicle_scan (init (Some []) None) ''VEH_003'' (booth 0 Unreachable)))
       = [scan_data (init (Some []) None) (booth 0 Unreachable) ''VEH_003'' (now (booth 0 Unreachable))]
   \<and> posts (snd (process_vehicle_scan
                (fst (process_vehicle_scan (init (Some []) None) ''VEH_003'' (booth 0 Unreachable)))
                ''VEH_003'' (booth 4 Unreachable))) = []
   \<and> \<not> cooldown_active (init (Some []) None) ''VEH_003'' (now (booth 0 (Response 503 Malformed)))
   \<and> http (booth 0 (Response 503 Malformed)) = Response 503 Malformed
   \<and> (503 :: int) \<noteq> 200
   \<and> fl_less (float_sub (now (booth 4 Unreachable)) (now (booth 0 (Response 503 Malformed))))
        (scan_cooldown (init (Some []) None))
   \<and> posts (snd (process_vehicle_scan
                (fst (process_vehicle_scan (init (Some []) None) ''VEH_003''
                        (booth 0 (Response 503 Malformed))))
                ''VEH_003'' (booth 4 Unreachable))) = []"
proof -
  let ?s = "init (Some []) None"
  let ?u = "booth 0 Unreachable"
  let ?r = "booth 0 (Response 503 Malformed)"
  let ?w2 = "booth 4 Unreachable"
  have a1: "\<not> cooldown_active ?s ''VEH_003'' (now ?u)"
    and a2: "\<not> cooldown_active ?s ''VEH_003'' (now ?r)"
    by (simp_all add: init_def cooldown_active_def)
  have h1: "http ?u = Unreachable" and h2: "http ?r = Response 503 Malformed"
    by (simp_all add: booth_def)
  have ne: "(503 :: int) \<noteq> 200" by simp
  have f1: "http ?u = Unreachable \<or> (\<exists>code body. http ?u = Response code body \<and> code \<noteq> 200)"
    using h1 by simp
  have f2: "http ?r = Unreachable \<or> (\<exists>code body. http ?r = Response code body \<and> code \<noteq> 200)"
    using h2 ne by simp
  have n: "now ?u = 0" "now ?r = 0" "now ?w2 = 4" by (simp_all add: booth_def)
  have cd: "scan_cooldown ?s = 5" by (simp add: init_def)
  have ex: "float_sub (now ?w2) (now ?u) = Finite (now ?w2 - now ?u)"
    and lt: "now ?w2 - now ?u < scan_cooldown ?s"
    and l1: "fl_less (float_sub (now ?w2) (now ?u)) (scan_cooldown ?s)"
    and l2: "fl_less (float_sub (now ?w2) (now ?r)) (scan_cooldown ?s)"
    unfolding n cd by (simp_all add: float_sub_small)
  note t1 = report_at_most_once [OF a1 f1, of ?w2]
  note t2 = report_at_most_once [OF a2 f2, of ?w2]
  have c1: "posts (snd (process_vehicle_scan ?s ''VEH_003'' ?u))
              = [scan_data ?s ?u ''VEH_003'' (now ?u)]"
    by (rule t1 [THEN conjunct1])
  have c2: "posts (snd (process_vehicle_scan (fst (process_vehicle_scan ?s ''VEH_003'' ?u))
                ''VEH_003'' ?w2)) = []"
    using t1 ex lt by blast
  have c3: "posts (snd (process_vehicle_scan (fst (process_vehicle_scan ?s ''VEH_003'' ?r))
                ''VEH_003'' ?w2)) = []"
    using t2 l2 by blast
  show ?thesis
    by (intro conjI a1 h1 ex lt l1 c1 c2 a2 h2 ne l2 c3)
qed

text \<open>
  Claim C8, as the specification states it, has no second report within the cooldown
  window. After a scan at the float 0.1 whose report found the backend unreachable, a
  scan at the float 5.1 comes less than 5 later, but the float difference of the two
  readings is 5: the identifier is reported again.
\<close>

theorem rereport_counterexample:
  "\<not> cooldown_active (init (Some []) None) ''VEH_003'' (now (booth clock_0_1 Unreachable))
   \<and> http (booth clock_0_1 Unreachable) = Unreachable
   \<and> posts (snd (process_vehicle_scan (init (Some []) None) ''VEH_003'' (booth clock_0_1 Unreachable)))
       = [scan_data (init (Some []) None) (booth clock_0_1 Unreachable) ''VEH_003'' clock_0_1]
   \<and> now (booth clock_0_1 Unreachable) < now (booth clock_5_1 Unreachable)
   \<and> now (booth clock_5_1 Unreachable) - now (booth clock_0_1 Unreachable)
       < scan_cooldown (init (Some []) None)
   \<and> posts (snd (process_vehicle_scan
                (fst (process_vehicle_scan (init (Some []) None) ''VEH_003''
                        (booth clock_0_1 Unreachable)))
                ''VEH_003'' (booth clock_5_1 Unreachable)))
       = [scan_data (init (Some []) None) (booth clock_5_1 Unreachable) ''VEH_003'' clock_5_1]"
proof -
  let ?s = "init (Some []) None"
  let ?w1 = "booth clock_0_1 Unreachable" and ?w2 = "booth clock_5_1 Unreachable"
  have n: "now ?w1 = clock_0_1" "now ?w2 = clock_5_1" by (simp_all add: booth_def)
  have cd: "scan_cooldown ?s = 5" by (simp add: init_def)
  have acc: "\<not> cooldown_active ?s ''VEH_003'' (now ?w1)"
    by (simp add: init_def cooldown_active_def)
  have h: "http ?w1 = Unreachable" by (simp add: booth_def)
  have s1: "fst (process_vehicle_scan ?s ''VEH_003'' ?w1)
              = ?s\<lparr>last_scan_time := (last_scan_time ?s)(''VEH_003'' \<mapsto> clock_0_1)\<rparr>"
    using acc by (simp add: process_vehicle_scan_state n)
  have p1: "posts (snd (process_vehicle_scan ?s ''VEH_003'' ?w1))
              = [scan_data ?s ?w1 ''VEH_003'' clock_0_1]"
    using acc by (simp add: process_vehicle_scan_posts n)
  have lt: "now ?w1 < now ?w2" and d: "now ?w2 - now ?w1 < scan_cooldown ?s"
    unfolding n cd by (simp_all add: clock_0_1_def clock_5_1_def)
  have acc2: "\<not> cooldown_active (fst (process_vehicle_scan ?s ''VEH_003'' ?w1)) ''VEH_003'' (now ?w2)"
    unfolding s1 n by (simp add: cooldown_active_after float_sub_small cd)
  have p2: "posts (snd (process_vehicle_scan (fst (process_vehicle_scan ?s ''VEH_003'' ?w1))
                ''VEH_003'' ?w2))
       = [scan_data ?s ?w2 ''VEH_003'' clock_5_1]"
    using acc2 unfolding s1 by (simp add: process_vehicle_scan_posts n)
  show ?thesis by (intro conjI acc h p1 lt d p2)
qed

section \<open>One pass of the scanning loop\<close>

lemma py_strip_keeps_text:
  assumes "py_strip l \<noteq> []"
  shows "filter (\<lambda>c. c \<noteq> CHR 0x0D \<and> c \<noteq> CHR 0x0A) (py_strip l) \<noteq> []"
proof -
  let ?t = "dropWhile py_isspace (rev (dropWhile py_isspace l))"
  from assms have ne: "?t \<noteq> []" by (simp add: py_strip_def)
  then have ns: "\<not> py_isspace (hd ?t)" by (rule hd_dropWhile)
  have cr: "py_isspace (CHR 0x0D)" and lf: "py_isspace (CHR 0x0A)"
    by (simp_all add: py_isspace_def)
  from ns cr lf have "hd ?t \<noteq> CHR 0x0D \<and> hd ?t \<noteq> CHR 0x0A" by auto
  moreover from ne have "hd ?t \<in> set (py_strip l)" by (simp add: py_strip_def)
  ultimately show ?thesis by (auto simp: filter_empty_conv)
qed

lemma read_rfid_nonempty:
  assumes "read_rfid s = (s1, Some v, tr)"
  shows "v \<noteq> []"
  using assms py_strip_keeps_text
  by (auto simp: read_rfid_def Let_def split: option.splits list.splits rx.splits if_splits)

lemma read_rfid_fields:
  assumes "read_rfid s = (s1, rid, tr)"
  shows "camera s1 = camera s" and "websocket s1 = websocket s" and "is_running s1 = is_running s"
    and "last_scan_time s1 = last_scan_time s" and "scan_cooldown s1 = scan_cooldown s"
    and "CameraRead \<notin> set tr" and "posts tr = []"
  using assms
  by (auto simp: read_rfid_def Let_def split: option.splits list.splits rx.splits if_splits)

lemma scan_qr_code_fields:
  assumes "scan_qr_code s = (s1, qid, tr)"
  shows "rfid_serial s1 = rfid_serial s" and "websocket s1 = websocket s"
    and "is_running s1 = is_running s"
    and "last_scan_time s1 = last_scan_time s" and "scan_cooldown s1 = scan_cooldown s"
    and "camera s \<noteq> None \<longrightarrow> CameraRead \<in> set tr" and "posts tr = []"
  using assms
  by (auto simp: scan_qr_code_def Let_def
           split: option.splits list.splits frame.splits qr.splits if_splits)

lemma set_status_led_no_camera [simp]: "CameraRead \<notin> set (set_status_led w c b)"
  by (simp add: set_status_led_def Let_def split: option.splits)

lemma buzz_no_camera [simp]: "CameraRead \<notin> set (buzz w d)"
  by (simp add: buzz_def split: option.splits)

lemma on_verdict_no_camera [simp]: "CameraRead \<notin> set (fst (on_verdict s w v t body))"
  by (simp add: on_verdict_def notify_def ws_send_def Let_def
        split: payload.splits sum.splits option.splits prod.splits)

lemma report_scan_no_camera [simp]: "CameraRead \<notin> set (fst (report_scan s w v t))"
  by (simp add: report_scan_fst split: http_outcome.splits)

lemma process_vehicle_scan_no_camera [simp]:
  "CameraRead \<notin> set (snd (process_vehicle_scan s v w))"
proof (cases "cooldown_active s v (now w)")
  case True
  then show ?thesis by (simp add: process_vehicle_scan_suppressed)
next
  case False
  then show ?thesis
    using report_scan_no_camera [of s w v "now w"]
    by (cases "report_scan s w v (now w)")
       (auto simp: process_vehicle_scan_accepted split: option.splits)
qed

lemma process_vehicle_scan_fields [simp]:
  "camera (fst (process_vehicle_scan s v w)) = camera s"
  "rfid_serial (fst (process_vehicle_scan s v w)) = rfid_serial s"
  "websocket (fst (process_vehicle_scan s v w)) = websocket s"
  "is_running (fst (process_vehicle_scan s v w)) = is_running s"
  "scan_cooldown (fst (process_vehicle_scan s v w)) = scan_cooldown s"
  by (simp_all add: process_vehicle_scan_state)

lemma scan_cycle_eq: "scan_cycle s w = (fst (scan_cycle_body s w), fst (snd (scan_cycle_body s w)))"
  by (simp add: scan_cycle_def scan_cycle_body_def split: prod.splits option.splits)

lemma scan_cycle_rfid:
  assumes "read_rfid s = (s1, Some v, tr1)"
  shows "scan_cycle s w =
           (fst (process_vehicle_scan s1 v w),
            tr1 @ snd (process_vehicle_scan s1 v w) @ [AsyncSleep 0.1])"
  using assms read_rfid_nonempty [OF assms]
  by (simp add: scan_cycle_eq scan_cycle_body_def split: prod.splits)

lemma scan_cycle_no_rfid:
  assumes "read_rfid s = (s1, None, tr1)"
  shows "scan_cycle s w =
           (if camera s1 \<noteq> None then
              (case scan_qr_code s1 of
                 (s2, None, tr2) \<Rightarrow> (s2, tr1 @ tr2 @ [AsyncSleep 0.1])
               | (s2, Some v, tr2) \<Rightarrow>
                   if v = [] then (s2, tr1 @ tr2 @ [AsyncSleep 0.1])
                   else (fst (process_vehicle_scan s2 v w),
                         tr1 @ tr2 @ snd (process_vehicle_scan s2 v w) @ [AsyncSleep 0.1]))
            else (s1, tr1 @ [AsyncSleep 0.1]))"
  using assms
  by (simp add: scan_cycle_eq scan_cycle_body_def split: prod.splits option.splits)

text \<open>
  Claim C5. A pass of the scanning loop begins with the poll of the RFID reader, whose
  events open the trace of the pass and contain no camera read. The camera is read in the
  pass exactly when the RFID poll yielded nothing and a camera is available. When the
  RFID poll yields an identifier, that identifier is the one processed and reported,
  and the camera is left as it was, whatever it holds.
\<close>

theorem rfid_first:
  assumes rd: "read_rfid s = (s1, rid, tr1)"
  shows "(\<exists>rest. snd (scan_cycle s w) = tr1 @ rest)
       \<and> CameraRead \<notin> set tr1
       \<and> (CameraRead \<in> set (snd (scan_cycle s w)) \<longleftrightarrow> rid = None \<and> camera s \<noteq> None)
       \<and> (\<forall>v. rid = Some v \<longrightarrow>
              scan_cycle s w =
                (fst (process_vehicle_scan s1 v w),
                 tr1 @ snd (process_vehicle_scan s1 v w) @ [AsyncSleep 0.1])
            \<and> posts (snd (scan_cycle s w))
                = (if cooldown_active s v (now w) then [] else [scan_data s w v (now w)])
            \<and> camera (fst (scan_cycle s w)) = camera s)"
proof -
  note f = read_rfid_fields [OF rd]
  show ?thesis
  proof (cases rid)
    case (Some v)
    with rd have rd': "read_rfid s = (s1, Some v, tr1)" by simp
    note c = scan_cycle_rfid [OF rd', of w]
    have cd: "cooldown_active s1 v (now w) = cooldown_active s v (now w)"
      by (simp add: cooldown_active_def f split: option.splits)
    have sd: "scan_data s1 w v (now w) = scan_data s w v (now w)"
      using rd' by (auto simp: scan_data_def read_rfid_def Let_def
                         split: option.splits list.splits rx.splits if_splits)
    show ?thesis
      using Some f(1,6,7)
      by (simp add: c process_vehicle_scan_posts cd sd)
  next
    case None
    with rd have rd': "read_rfid s = (s1, None, tr1)" by simp
    note c = scan_cycle_no_rfid [OF rd', of w]
    show ?thesis
    proof (cases "camera s1")
      case cn: None
      then show ?thesis using None f(1,6) by (simp add: c)
    next
      case (Some frames)
      obtain s2 qid tr2 where q: "scan_qr_code s1 = (s2, qid, tr2)"
        by (cases "scan_qr_code s1") auto
      from scan_qr_code_fields(6) [OF q] Some have "CameraRead \<in> set tr2" by simp
      then show ?thesis using None Some f(1,6) q
        by (auto simp: c split: option.splits)
    qed
  qed
qed


lemma read_rfid_both_ready:
  "read_rfid both_ready =
     (both_ready\<lparr>rfid_serial := Some []\<rparr>, Some ''VEH_001'',
      [SerialInWaiting, SerialReadline, Log INFO ''RFID read: VEH_001'' None])"
  by (simp add: read_rfid_def both_ready_def init_def py_strip_def py_isspace_def Let_def)

theorem rfid_first_witness:
  "read_rfid both_ready =
     (both_ready\<lparr>rfid_serial := Some []\<rparr>, Some ''VEH_001'',
      [SerialInWaiting, SerialReadline, Log INFO ''RFID read: VEH_001'' None])
   \<and> camera both_ready = Some [Frame [QrText ''VEH_002'']]
   \<and> CameraRead \<notin> set (snd (scan_cycle both_ready (booth 0 (verdict True))))
   \<and> posts (snd (scan_cycle both_ready (booth 0 (verdict True))))
       = [scan_data both_ready (booth 0 (verdict True)) ''VEH_001'' 0]
   \<and> camera (fst (scan_cycle both_ready (booth 0 (verdict True)))) = Some [Frame [QrText ''VEH_002'']]"
proof -
  let ?w = "booth 0 (verdict True)"
  note t = rfid_first [OF read_rfid_both_ready, of ?w]
  have cam: "camera both_ready = Some [Frame [QrText ''VEH_002'']]"
    by (simp add: both_ready_def init_def)
  have acc: "\<not> cooldown_active both_ready ''VEH_001'' (now ?w)"
    by (simp add: both_ready_def init_def cooldown_active_def)
  have n: "now ?w = 0" by (simp add: booth_def)
  have c1: "CameraRead \<notin> set (snd (scan_cycle both_ready ?w))"
    using t [THEN conjunct2, THEN conjunct2, THEN conjunct1] by simp
  from t have "posts (snd (scan_cycle both_ready ?w))
       = (if cooldown_active both_ready ''VEH_001'' (now ?w) then []
          else [scan_data both_ready ?w ''VEH_001'' (now ?w)])
     \<and> camera (fst (scan_cycle both_ready ?w)) = camera both_ready"
    by blast
  then have c2: "posts (snd (scan_cycle both_ready ?w)) = [scan_data both_ready ?w ''VEH_001'' 0]"
    and c3: "camera (fst (scan_cycle both_ready ?w)) = Some [Frame [QrText ''VEH_002'']]"
    using acc n cam by simp_all
  show ?thesis by (intro conjI read_rfid_both_ready cam c1 c2 c3)
qed

text \<open>
  Claim C4 asks that the scan type name the sensor that produced the identifier. The
  report takes it from the presence of the RFID reader instead: on a booth whose reader
  is present and idle, the identifier \<open>VEH_001\<close> read by the camera from a QR code is
  reported with scan type \<open>rfid\<close>.
\<close>

theorem scan_type_follows_reader:
  "read_rfid qr_ready = (qr_ready, None, [SerialInWaiting])
   \<and> scan_qr_code qr_ready
       = (qr_ready\<lparr>camera := Some []\<rparr>, Some ''VEH_001'',
          [CameraRead, Log INFO ''QR code scanned: VEH_001'' None])
   \<and> posts (snd (scan_cycle qr_ready (booth 0 (verdict True))))
       = [JObj [(''vehicleId'', JStr ''VEH_001''),
                (''tollBoothId'', JStr ''TB001''),
                (''location'', JObj [(''lat'', JNum 12.9716), (''lng'', JNum 77.5946)]),
                (''timestamp'', JNum 0),
                (''scanType'', JStr ''rfid'')]]"
proof -
  have r: "read_rfid qr_ready = (qr_ready, None, [SerialInWaiting])"
    by (simp add: read_rfid_def qr_ready_def init_def)
  have q: "scan_qr_code qr_ready
       = (qr_ready\<lparr>camera := Some []\<rparr>, Some ''VEH_001'',
          [CameraRead, Log INFO ''QR code scanned: VEH_001'' None])"
    by (simp add: scan_qr_code_def qr_ready_def init_def)
  have c: "camera qr_ready \<noteq> None" by (simp add: qr_ready_def init_def)
  have acc: "\<not> cooldown_active (qr_ready\<lparr>camera := Some []\<rparr>) ''VEH_001'' (now (booth 0 (verdict True)))"
    by (simp add: qr_ready_def init_def cooldown_active_def)
  have p: "posts (snd (scan_cycle qr_ready (booth 0 (verdict True))))
       = [scan_data (qr_ready\<lparr>camera := Some []\<rparr>) (booth 0 (verdict True)) ''VEH_001'' 0]"
    using c acc
    by (simp add: scan_cycle_no_rfid [OF r] q process_vehicle_scan_posts booth_def)
  show ?thesis
    using r q p
    by (simp add: scan_data_def location_json_def booth_def qr_ready_def init_def)
qed

section \<open>Failures in the scanning loop\<close>

lemma scan_cycle_body_no_exception: "snd (snd (scan_cycle_body s w)) = None"
  by (simp add: scan_cycle_body_def split: prod.splits)

lemma scan_cycle_body_pause: "\<exists>tr. fst (snd (scan_cycle_body s w)) = tr @ [AsyncSleep 0.1]"
  by (auto simp: scan_cycle_body_def split: prod.splits)

lemma scan_cycle_is_running [simp]: "is_running (fst (scan_cycle s w)) = is_running s"
proof -
  obtain s1 rid tr1 where r: "read_rfid s = (s1, rid, tr1)" by (cases "read_rfid s") auto
  note f = read_rfid_fields [OF r]
  show ?thesis
  proof (cases rid)
    case (Some v)
    with r show ?thesis by (simp add: scan_cycle_rfid f)
  next
    case None
    obtain s2 qid tr2 where q: "scan_qr_code s1 = (s2, qid, tr2)" by (cases "scan_qr_code s1") auto
    note g = scan_qr_code_fields [OF q]
    from None r have r': "read_rfid s = (s1, None, tr1)" by simp
    show ?thesis
      by (simp add: scan_cycle_no_rfid [OF r'] q f g split: option.splits)
  qed
qed

lemma scan_cycles_count:
  "is_running s \<Longrightarrow>
     snd (snd (scan_cycles s ws)) = length ws \<and> is_running (fst (scan_cycles s ws))"
proof (induction ws arbitrary: s)
  case Nil
  then show ?case by simp
next
  case (Cons w ws)
  have "is_running (fst (scan_cycle s w))" using Cons.prems by simp
  from Cons.IH [OF this] Cons.prems show ?case
    by (cases "scan_cycle s w"; cases "scan_cycles (fst (scan_cycle s w)) ws") auto
qed

lemma scan_loop_count:
  "is_running s \<Longrightarrow>
     snd (snd (scan_loop s ws)) = length ws \<and> is_running (fst (scan_loop s ws))"
  using scan_cycles_count [of s ws] by (cases "scan_cycles s ws") (auto simp: scan_loop_def)

lemma process_vehicle_scan_failed:
  assumes "\<not> cooldown_active s v (now w)" and "snd (report_scan s w v (now w)) = Some e"
    and "gpio_ok w"
  shows "snd (process_vehicle_scan s v w) =
           fst (report_scan s w v (now w))
             @ [Log ERROR ''Error processing vehicle scan'' (Some e),
                GpioOut LED_RED True, AsyncSleep 1, GpioOut LED_RED False]"
  using assms
  by (cases "report_scan s w v (now w)")
     (simp add: process_vehicle_scan_accepted set_status_led_red)

lemma report_scan_failures:
  "http w = Unreachable \<Longrightarrow>
     report_scan s w v t = ([HttpPost (scan_data s w v t)], Some RequestException)"
  "http w = Response 200 Malformed \<Longrightarrow>
     report_scan s w v t = ([HttpPost (scan_data s w v t)], Some JSONDecodeError)"
  "http w = Response 200 (Parsed j) \<Longrightarrow> \<forall>kvs. j \<noteq> JObj kvs \<Longrightarrow>
     report_scan s w v t = ([HttpPost (scan_data s w v t)], Some AttributeError)"
  by (cases j; simp add: report_scan_def on_verdict_def dict_get_def)+

lemma process_vehicle_scan_error_pulse:
  assumes "\<not> cooldown_active s v (now w)" and "gpio_ok w"
    and "report_scan s w v (now w) = ([HttpPost (scan_data s w v (now w))], Some e)"
  shows "snd (process_vehicle_scan s v w) =
           [HttpPost (scan_data s w v (now w)),
            Log ERROR ''Error processing vehicle scan'' (Some e),
            GpioOut LED_RED True, AsyncSleep 1, GpioOut LED_RED False]"
  using assms by (simp add: process_vehicle_scan_accepted set_status_led_red)

text \<open>
  Claim C9, as the code has it. With working GPIO, a failure of the backend call or of
  the decoding of its response while an accepted scan is processed (the backend
  unreachable, a 200 body that is not JSON, a 200 body that is not a JSON object) is
  caught, logged and shown as a red pulse: the red LED is driven on and, 1.0 later, off,
  and no other LED is driven. A failure raised while a sensor is read is caught and
  logged by the read itself, which then yields nothing: no LED is driven for it. Nothing
  raised in a pass leaves its \<^verbatim>\<open>try\<close> block, every pass ends with the idle pause of 0.1
  and leaves \<^verbatim>\<open>is_running\<close> as it was, so a running loop makes every pass it is given
  the world for and is still running afterwards.
\<close>

theorem scan_failures_recovered:
  "(\<not> cooldown_active s v (now w) \<and> gpio_ok w \<longrightarrow>
      (http w = Unreachable \<longrightarrow>
         snd (process_vehicle_scan s v w) =
           [HttpPost (scan_data s w v (now w)),
            Log ERROR ''Error processing vehicle scan'' (Some RequestException),
            GpioOut LED_RED True, AsyncSleep 1, GpioOut LED_RED False])
    \<and> (http w = Response 200 Malformed \<longrightarrow>
         snd (process_vehicle_scan s v w) =
           [HttpPost (scan_data s w v (now w)),
            Log ERROR ''Error processing vehicle scan'' (Some JSONDecodeError),
            GpioOut LED_RED True, AsyncSleep 1, GpioOut LED_RED False])
    \<and> (http w = Response 200 (Parsed j) \<and> (\<forall>kvs. j \<noteq> JObj kvs) \<longrightarrow>
         snd (process_vehicle_scan s v w) =
           [HttpPost (scan_data s w v (now w)),
            Log ERROR ''Error processing vehicle scan'' (Some AttributeError),
            GpioOut LED_RED True, AsyncSleep 1, GpioOut LED_RED False])
    \<and> (http w = Unreachable \<or> http w = Response 200 Malformed
          \<or> http w = Response 200 (Parsed j) \<and> (\<forall>kvs. j \<noteq> JObj kvs) \<longrightarrow>
         lit_for LED_RED (snd (process_vehicle_scan s v w)) = Some 1
       \<and> lit_for LED_GREEN (snd (process_vehicle_scan s v w)) = None
       \<and> lit_for LED_YELLOW (snd (process_vehicle_scan s v w)) = None))
   \<and> (rfid_serial s = Some (RxIOError # port) \<longrightarrow>
        read_rfid s = (s\<lparr>rfid_serial := Some port\<rparr>, None,
                       [SerialInWaiting, Log ERROR ''Error reading RFID'' (Some SerialException)]))
   \<and> (rfid_serial s = Some (RxInvalidUtf8 # port) \<longrightarrow>
        read_rfid s = (s\<lparr>rfid_serial := Some port\<rparr>, None,
                       [SerialInWaiting, SerialReadline,
                        Log ERROR ''Error reading RFID'' (Some UnicodeDecodeError)]))
   \<and> (camera s = Some (FrameError # frames) \<longrightarrow>
        scan_qr_code s = (s\<lparr>camera := Some frames\<rparr>, None,
                          [CameraRead, Log ERROR ''Error scanning QR code'' (Some CameraError)]))
   \<and> (camera s = Some (Frame (QrInvalidUtf8 # codes) # frames) \<longrightarrow>
        scan_qr_code s = (s\<lparr>camera := Some frames\<rparr>, None,
                          [CameraRead,
                           Log ERROR ''Error scanning QR code'' (Some UnicodeDecodeError)]))
   \<and> snd (snd (scan_cycle_body s w)) = None
   \<and> (\<exists>tr. snd (scan_cycle s w) = tr @ [AsyncSleep 0.1])
   \<and> is_running (fst (scan_cycle s w)) = is_running s
   \<and> (is_running s \<longrightarrow>
        snd (snd (scan_loop s ws)) = length ws \<and> is_running (fst (scan_loop s ws)))"
proof -
  have pulse: "snd (process_vehicle_scan s v w) =
           [HttpPost (scan_data s w v (now w)),
            Log ERROR ''Error processing vehicle scan'' (Some e),
            GpioOut LED_RED True, AsyncSleep 1, GpioOut LED_RED False]"
    if "\<not> cooldown_active s v (now w)" "gpio_ok w"
      "report_scan s w v (now w) = ([HttpPost (scan_data s w v (now w))], Some e)" for e
    using that by (rule process_vehicle_scan_error_pulse)
  have lit: "lit_for LED_RED tr = Some 1 \<and> lit_for LED_GREEN tr = None \<and> lit_for LED_YELLOW tr = None"
    if "tr = [HttpPost d, Log ERROR m (Some e), GpioOut LED_RED True, AsyncSleep 1, GpioOut LED_RED False]"
    for tr d m e
    unfolding that by (simp add: pins_distinct)
  have A: "snd (process_vehicle_scan s v w) =
           [HttpPost (scan_data s w v (now w)),
            Log ERROR ''Error processing vehicle scan'' (Some RequestException),
            GpioOut LED_RED True, AsyncSleep 1, GpioOut LED_RED False]"
    if "\<not> cooldown_active s v (now w)" "gpio_ok w" "http w = Unreachable"
    using that by (intro pulse report_scan_failures)
  have B: "snd (process_vehicle_scan s v w) =
           [HttpPost (scan_data s w v (now w)),
            Log ERROR ''Error processing vehicle scan'' (Some JSONDecodeError),
            GpioOut LED_RED True, AsyncSleep 1, GpioOut LED_RED False]"
    if "\<not> cooldown_active s v (now w)" "gpio_ok w" "http w = Response 200 Malformed"
    using that by (intro pulse report_scan_failures)
  have C: "snd (process_vehicle_scan s v w) =
           [HttpPost (scan_data s w v (now w)),
            Log ERROR ''Error processing vehicle scan'' (Some AttributeError),
            GpioOut LED_RED True, AsyncSleep 1, GpioOut LED_RED False]"
    if "\<not> cooldown_active s v (now w)" "gpio_ok w"
      "http w = Response 200 (Parsed j) \<and> (\<forall>kvs. j \<noteq> JObj kvs)"
    using that by (intro pulse report_scan_failures(3)) auto
  have D: "lit_for LED_RED (snd (process_vehicle_scan s v w)) = Some 1
       \<and> lit_for LED_GREEN (snd (process_vehicle_scan s v w)) = None
       \<and> lit_for LED_YELLOW (snd (process_vehicle_scan s v w)) = None"
    if "\<not> cooldown_active s v (now w)" "gpio_ok w"
      "http w = Unreachable \<or> http w = Response 200 Malformed
          \<or> http w = Response 200 (Parsed j) \<and> (\<forall>kvs. j \<noteq> JObj kvs)"
    using that A B C lit by metis
  have E: "read_rfid s = (s\<lparr>rfid_serial := Some port\<rparr>, None,
                       [SerialInWaiting, Log ERROR ''Error reading RFID'' (Some SerialException)])"
    if "rfid_serial s = Some (RxIOError # port)"
    using that by (simp add: read_rfid_def)
  have F: "read_rfid s = (s\<lparr>rfid_serial := Some port\<rparr>, None,
                       [SerialInWaiting, SerialReadline,
                        Log ERROR ''Error reading RFID'' (Some UnicodeDecodeError)])"
    if "rfid_serial s = Some (RxInvalidUtf8 # port)"
    using that by (simp add: read_rfid_def)
  have G: "scan_qr_code s = (s\<lparr>camera := Some frames\<rparr>, None,
                          [CameraRead, Log ERROR ''Error scanning QR code'' (Some CameraError)])"
    if "camera s = Some (FrameError # frames)"
    using that by (simp add: scan_qr_code_def)
  have H: "scan_qr_code s = (s\<lparr>camera := Some frames\<rparr>, None,
                          [CameraRead,
                           Log ERROR ''Error scanning QR code'' (Some UnicodeDecodeError)])"
    if "camera s = Some (Frame (QrInvalidUtf8 # codes) # frames)"
    using that by (simp add: scan_qr_code_def)
  have I: "snd (snd (scan_cycle_body s w)) = None" by (rule scan_cycle_body_no_exception)
  have J: "\<exists>tr. snd (scan_cycle s w) = tr @ [AsyncSleep 0.1]"
    using scan_cycle_body_pause [of s w] by (simp add: scan_cycle_eq)
  have K: "is_running (fst (scan_cycle s w)) = is_running s" by simp
  have L: "snd (snd (scan_loop s ws)) = length ws \<and> is_running (fst (scan_loop s ws))"
    if "is_running s"
    using that by (rule scan_loop_count)
  show ?thesis
    using A B C D E F G H I J K L by blast
qed


text \<open>
  Claim C9, as the specification states it, has every failure of a pass shown as a red
  pulse. In a pass whose RFID read fails, the failure is logged and the pass ends with its
  pause, but the red LED is never driven. When the send of a notification fails, the red
  LED of an unregistered vehicle, already on, stays on for 2.0, and the green LED of a
  registered vehicle is driven on and never off. With a GPIO driver that raises, a
  failed report is logged and no LED is driven.
\<close>

theorem sensor_failure_counterexample:
  "scan_cycle faulty_reader (booth 0 Unreachable) =
     (faulty_reader\<lparr>rfid_serial := Some []\<rparr>,
      [SerialInWaiting, Log ERROR ''Error reading RFID'' (Some SerialException), AsyncSleep 0.1])
   \<and> GpioOut LED_RED True \<notin> set (snd (scan_cycle faulty_reader (booth 0 Unreachable)))
   \<and> \<not> ws_send_ok (stale_channel 0 (verdict False))
   \<and> snd (process_vehicle_scan connected_booth ''VEH_002'' (stale_channel 0 (verdict False))) =
        [HttpPost (JObj [(''vehicleId'', JStr ''VEH_002''), (''tollBoothId'', JStr ''TB001''),
                         (''location'', JObj [(''lat'', JNum 12.9716), (''lng'', JNum 77.5946)]),
                         (''timestamp'', JNum 0), (''scanType'', JStr ''rfid'')]),
         GpioOut 24 True,
         GpioOut 23 True, TimeSleep 1, GpioOut 23 False,
         Log WARNING ''Unregistered vehicle detected: VEH_002'' None,
         WsSendFailed (JObj [(''type'', JStr ''unregistered_vehicle''), (''vehicleId'', JStr ''VEH_002''),
                             (''timestamp'', JNum 0)]),
         Log ERROR ''Error processing vehicle scan'' (Some ConnectionClosed),
         GpioOut 24 True, AsyncSleep 1, GpioOut 24 False]
   \<and> lit_for LED_RED
        (snd (process_vehicle_scan connected_booth ''VEH_002'' (stale_channel 0 (verdict False))))
       = Some 2
   \<and> lit_for LED_GREEN
        (snd (process_vehicle_scan connected_booth ''VEH_001'' (stale_channel 0 (verdict True))))
       = None
   \<and> GpioOut LED_GREEN True
       \<in> set (snd (process_vehicle_scan connected_booth ''VEH_001'' (stale_channel 0 (verdict True))))
   \<and> \<not> gpio_ok (dead_gpio 0 Unreachable)
   \<and> snd (process_vehicle_scan connected_booth ''VEH_003'' (dead_gpio 0 Unreachable)) =
        [HttpPost (JObj [(''vehicleId'', JStr ''VEH_003''), (''tollBoothId'', JStr ''TB001''),
                         (''location'', JObj [(''lat'', JNum 12.9716), (''lng'', JNum 77.5946)]),
                         (''timestamp'', JNum 0), (''scanType'', JStr ''rfid'')]),
         Log ERROR ''Error processing vehicle scan'' (Some RequestException),
         Log ERROR ''Error setting LED'' (Some GpioError),
         AsyncSleep 1,
         Log ERROR ''Error setting LED'' (Some GpioError)]"
  by (simp add: scan_cycle_def scan_cycle_body_def read_rfid_def faulty_reader_def
        connected_booth_def init_def booth_def verdict_def cooldown_active_def
        stale_channel_def dead_gpio_def
        process_vehicle_scan_def report_scan_def on_verdict_def dict_get_def notify_def
        ws_send_def set_status_led_def buzz_def scan_data_def location_json_def
        vehicle_detected_def unregistered_vehicle_def Let_def
        LED_GREEN_def LED_RED_def LED_YELLOW_def BUZZER_PIN_def)

theorem scan_failures_recovered_witness:
  "\<not> cooldown_active connected_booth ''VEH_003'' (now (booth 0 Unreachable))
   \<and> gpio_ok (booth 0 Unreachable)
   \<and> http (booth 0 Unreachable) = Unreachable
   \<and> snd (process_vehicle_scan connected_booth ''VEH_003'' (booth 0 Unreachable)) =
        [HttpPost (scan_data connected_booth (booth 0 Unreachable) ''VEH_003'' 0),
         Log ERROR ''Error processing vehicle scan'' (Some RequestException),
         GpioOut LED_RED True, AsyncSleep 1, GpioOut LED_RED False]
   \<and> lit_for LED_RED (snd (process_vehicle_scan connected_booth ''VEH_003'' (booth 0 Unreachable)))
       = Some 1
   \<and> http (booth 0 (Response 200 Malformed)) = Response 200 Malformed
   \<and> snd (process_vehicle_scan connected_booth ''VEH_003'' (booth 0 (Response 200 Malformed))) =
        [HttpPost (scan_data connected_booth (booth 0 (Response 200 Malformed)) ''VEH_003'' 0),
         Log ERROR ''Error processing vehicle scan'' (Some JSONDecodeError),
         GpioOut LED_RED True, AsyncSleep 1, GpioOut LED_RED False]
   \<and> lit_for LED_RED
        (snd (process_vehicle_scan connected_booth ''VEH_003'' (booth 0 (Response 200 Malformed))))
       = Some 1
   \<and> http (booth 0 (Response 200 (Parsed (JArr [])))) = Response 200 (Parsed (JArr []))
   \<and> snd (process_vehicle_scan connected_booth ''VEH_003'' (booth 0 (Response 200 (Parsed (JArr []))))) =
        [HttpPost (scan_data connected_booth (booth 0 (Response 200 (Parsed (JArr [])))) ''VEH_003'' 0),
         Log ERROR ''Error processing vehicle scan'' (Some AttributeError),
         GpioOut LED_RED True, AsyncSleep 1, GpioOut LED_RED False]
   \<and> lit_for LED_RED
        (snd (process_vehicle_scan connected_booth ''VEH_003'' (booth 0 (Response 200 (Parsed (JArr []))))))
       = Some 1
   \<and> rfid_serial faulty_reader = Some (RxIOError # [])
   \<and> read_rfid faulty_reader
       = (faulty_reader\<lparr>rfid_serial := Some []\<rparr>, None,
          [SerialInWaiting, Log ERROR ''Error reading RFID'' (Some SerialException)])
   \<and> rfid_serial (faulty_reader\<lparr>rfid_serial := Some [RxInvalidUtf8]\<rparr>) = Some (RxInvalidUtf8 # [])
   \<and> read_rfid (faulty_reader\<lparr>rfid_serial := Some [RxInvalidUtf8]\<rparr>)
       = (faulty_reader\<lparr>rfid_serial := Some []\<rparr>, None,
          [SerialInWaiting, SerialReadline,
           Log ERROR ''Error reading RFID'' (Some UnicodeDecodeError)])
   \<and> camera (faulty_reader\<lparr>camera := Some [FrameError]\<rparr>) = Some (FrameError # [])
   \<and> scan_qr_code (faulty_reader\<lparr>camera := Some [FrameError]\<rparr>)
       = (faulty_reader\<lparr>camera := Some []\<rparr>, None,
          [CameraRead, Log ERROR ''Error scanning QR code'' (Some CameraError)])
   \<and> camera (faulty_reader\<lparr>camera := Some [Frame [QrInvalidUtf8]]\<rparr>)
       = Some (Frame (QrInvalidUtf8 # []) # [])
   \<and> scan_qr_code (faulty_reader\<lparr>camera := Some [Frame [QrInvalidUtf8]]\<rparr>)
       = (faulty_reader\<lparr>camera := Some []\<rparr>, None,
          [CameraRead, Log ERROR ''Error scanning QR code'' (Some UnicodeDecodeError)])
   \<and> is_running faulty_reader
   \<and> snd (snd (scan_loop faulty_reader [booth 0 Unreachable, booth 1 Unreachable, booth 2 Unreachable])) = 3
   \<and> is_running (fst (scan_loop faulty_reader [booth 0 Unreachable, booth 1 Unreachable, booth 2 Unreachable]))"
proof -
  let ?u = "booth 0 Unreachable" and ?m = "booth 0 (Response 200 Malformed)"
  let ?a = "booth 0 (Response 200 (Parsed (JArr [])))"
  let ?ws = "[booth 0 Unreachable, booth 1 Unreachable, booth 2 Unreachable]"
  let ?f2 = "faulty_reader\<lparr>rfid_serial := Some [RxInvalidUtf8]\<rparr>"
  let ?f3 = "faulty_reader\<lparr>camera := Some [FrameError]\<rparr>"
  let ?f4 = "faulty_reader\<lparr>camera := Some [Frame [QrInvalidUtf8]]\<rparr>"
  have n: "now ?u = 0" "now ?m = 0" "now ?a = 0" by (simp_all add: booth_def)
  note tu = scan_failures_recovered [of connected_booth "''VEH_003''" ?u, unfolded n]
  note tm = scan_failures_recovered [of connected_booth "''VEH_003''" ?m, unfolded n]
  note ta = scan_failures_recovered [of connected_booth "''VEH_003''" ?a "JArr []", unfolded n]
  note t1 = scan_failures_recovered [of faulty_reader _ _ _ "[]" _ _ ?ws]
  note t2 = scan_failures_recovered [of ?f2 _ _ _ "[]"]
  note t3 = scan_failures_recovered [of ?f3 _ _ _ _ "[]"]
  note t4 = scan_failures_recovered [of ?f4 _ _ _ _ "[]" "[]"]
  have acc: "\<not> cooldown_active connected_booth ''VEH_003'' 0"
    by (simp add: connected_booth_def init_def cooldown_active_def)
  have acc': "\<not> cooldown_active connected_booth ''VEH_003'' (now ?u)" using acc by (simp add: n)
  have g: "gpio_ok ?u" "gpio_ok ?m" "gpio_ok ?a" by (simp_all add: booth_def)
  have hu: "http ?u = Unreachable" and hm: "http ?m = Response 200 Malformed"
    and ha: "http ?a = Response 200 (Parsed (JArr []))"
    by (simp_all add: booth_def)
  have na: "\<forall>kvs. JArr [] \<noteq> JObj kvs" by simp
  have cu: "snd (process_vehicle_scan connected_booth ''VEH_003'' ?u) =
        [HttpPost (scan_data connected_booth ?u ''VEH_003'' 0),
         Log ERROR ''Error processing vehicle scan'' (Some RequestException),
         GpioOut LED_RED True, AsyncSleep 1, GpioOut LED_RED False]"
    and lu: "lit_for LED_RED (snd (process_vehicle_scan connected_booth ''VEH_003'' ?u)) = Some 1"
    using tu acc g(1) hu by blast+
  have cm: "snd (process_vehicle_scan connected_booth ''VEH_003'' ?m) =
        [HttpPost (scan_data connected_booth ?m ''VEH_003'' 0),
         Log ERROR ''Error processing vehicle scan'' (Some JSONDecodeError),
         GpioOut LED_RED True, AsyncSleep 1, GpioOut LED_RED False]"
    and lm: "lit_for LED_RED (snd (process_vehicle_scan connected_booth ''VEH_003'' ?m)) = Some 1"
    using tm acc g(2) hm by blast+
  have ca: "snd (process_vehicle_scan connected_booth ''VEH_003'' ?a) =
        [HttpPost (scan_data connected_booth ?a ''VEH_003'' 0),
         Log ERROR ''Error processing vehicle scan'' (Some AttributeError),
         GpioOut LED_RED True, AsyncSleep 1, GpioOut LED_RED False]"
    and la: "lit_for LED_RED (snd (process_vehicle_scan connected_booth ''VEH_003'' ?a)) = Some 1"
    using ta acc g(3) ha na by blast+
  have p1: "rfid_serial faulty_reader = Some (RxIOError # [])"
    and p2: "rfid_serial ?f2 = Some (RxInvalidUtf8 # [])"
    and p3: "camera ?f3 = Some (FrameError # [])"
    and p4: "camera ?f4 = Some (Frame (QrInvalidUtf8 # []) # [])"
    and run: "is_running faulty_reader"
    by (simp_all add: faulty_reader_def init_def)
  have r1: "read_rfid faulty_reader
       = (faulty_reader\<lparr>rfid_serial := Some []\<rparr>, None,
          [SerialInWaiting, Log ERROR ''Error reading RFID'' (Some SerialException)])"
    using t1 p1 by blast
  have "read_rfid ?f2
       = (?f2\<lparr>rfid_serial := Some []\<rparr>, None,
          [SerialInWaiting, SerialReadline,
           Log ERROR ''Error reading RFID'' (Some UnicodeDecodeError)])"
    using t2 p2 by blast
  then have r2: "read_rfid ?f2
       = (faulty_reader\<lparr>rfid_serial := Some []\<rparr>, None,
          [SerialInWaiting, SerialReadline,
           Log ERROR ''Error reading RFID'' (Some UnicodeDecodeError)])"
    by simp
  have "scan_qr_code ?f3
       = (?f3\<lparr>camera := Some []\<rparr>, None,
          [CameraRead, Log ERROR ''Error scanning QR code'' (Some CameraError)])"
    using t3 p3 by blast
  then have r3: "scan_qr_code ?f3
       = (faulty_reader\<lparr>camera := Some []\<rparr>, None,
          [CameraRead, Log ERROR ''Error scanning QR code'' (Some CameraError)])"
    by simp
  have "scan_qr_code ?f4
       = (?f4\<lparr>camera := Some []\<rparr>, None,
          [CameraRead, Log ERROR ''Error scanning QR code'' (Some UnicodeDecodeError)])"
    using t4 p4 by blast
  then have r4: "scan_qr_code ?f4
       = (faulty_reader\<lparr>camera := Some []\<rparr>, None,
          [CameraRead, Log ERROR ''Error scanning QR code'' (Some UnicodeDecodeError)])"
    by simp
  have "snd (snd (scan_loop faulty_reader ?ws)) = length ?ws
        \<and> is_running (fst (scan_loop faulty_reader ?ws))"
    using t1 run by blast
  then have c3: "snd (snd (scan_loop faulty_reader ?ws)) = 3"
    and c4: "is_running (fst (scan_loop faulty_reader ?ws))"
    by simp_all
  show ?thesis
    by (intro conjI acc' g(1) hu cu lu hm cm lm ha ca la p1 r1 p2 r2 p3 r3 p4 r4 run c3 c4)
qed

section \<open>Reconnecting the channel\<close>

lemma connects_after_backoff_append:
  "connects_after_backoff prev (xs @ ys) \<longleftrightarrow>
     connects_after_backoff prev xs
     \<and> connects_after_backoff (if xs = [] then prev else Some (last xs)) ys"
  by (induction xs arbitrary: prev) auto

lemma connects_after_backoff_none:
  "WsConnect \<notin> set xs \<Longrightarrow> connects_after_backoff prev xs"
  by (induction xs arbitrary: prev) auto

lemma set_status_led_no_connect [simp]: "WsConnect \<notin> set (set_status_led w c b)"
  by (simp add: set_status_led_def Let_def split: option.splits)

lemma buzz_no_connect [simp]: "WsConnect \<notin> set (buzz w d)"
  by (simp add: buzz_def split: option.splits)

lemma send_hardware_status_no_connect [simp]: "WsConnect \<notin> set (send_hardware_status s w)"
  by (simp add: send_hardware_status_def ws_send_def split: option.splits)

lemma handle_hardware_command_no_connect [simp]:
  "WsConnect \<notin> set (fst (handle_hardware_command s w command))"
  by (simp add: handle_hardware_command_def split: sum.splits)

lemma handle_hardware_command_no_exception:
  "dict_get command k d = Inr x \<Longrightarrow> snd (handle_hardware_command s w command) = None"
  by (cases command) (simp_all add: handle_hardware_command_def dict_get_def)

lemma websocket_cycle_disconnected:
  assumes "websocket s = None"
  shows "websocket_cycle s w =
           (fst (connect_websocket s w), snd (connect_websocket s w) @ [AsyncSleep 5])"
  using assms
  by (simp add: websocket_cycle_def websocket_body_def split: prod.splits)

lemma connect_websocket_shape:
  "\<exists>tr. snd (connect_websocket s w) = WsConnect # tr \<and> WsConnect \<notin> set tr"
  by (simp add: connect_websocket_def Let_def)

lemma connect_websocket_fields [simp]:
  "is_running (fst (connect_websocket s w)) = is_running s"
  "websocket (fst (connect_websocket s w)) = (if ws_connect_ok w then Some WsConn else None)"
  by (simp_all add: connect_websocket_def Let_def)

lemma websocket_body_connected_events:
  assumes "websocket s = Some c"
  shows "fst (snd (websocket_body s w)) =
           WsRecv # (case ws_recv w of
                       RecvMessage (Parsed data) \<Rightarrow>
                         (case dict_get data ''type'' JNull of
                            Inl e \<Rightarrow> []
                          | Inr t \<Rightarrow>
                              if t = JStr ''hardware_command''
                              then fst (handle_hardware_command s w data) else [])
                     | _ \<Rightarrow> [])"
  using assms
  by (simp add: websocket_body_def
        split: recv_outcome.splits payload.splits sum.splits prod.splits)

lemma websocket_body_connected_exception:
  assumes "websocket s = Some c"
  shows "snd (snd (websocket_body s w)) =
           (case ws_recv w of
              RecvClosed \<Rightarrow> Some ConnectionClosed
            | RecvFailed \<Rightarrow> Some RecvError
            | RecvMessage Malformed \<Rightarrow> Some JSONDecodeError
            | RecvMessage (Parsed data) \<Rightarrow>
                (case dict_get data ''type'' JNull of
                   Inl e \<Rightarrow> Some e
                 | Inr t \<Rightarrow> None))"
proof -
  have "e = None"
    if "dict_get data ''type'' JNull = Inr t" and "handle_hardware_command s w data = (tr, e)"
    for data t tr e
    using handle_hardware_command_no_exception [OF that(1), of s w] that(2) by simp
  then show ?thesis
    using assms
    by (auto simp: websocket_body_def
          split: recv_outcome.splits payload.splits sum.splits prod.splits)
qed

lemma dict_get_exception: "dict_get d k x = Inl e \<Longrightarrow> e = AttributeError"
  by (cases d) (simp_all add: dict_get_def)

lemma websocket_body_connected:
  assumes "websocket s = Some c"
  shows "fst (websocket_body s w) = s"
    and "\<exists>tr. fst (snd (websocket_body s w)) = WsRecv # tr \<and> WsConnect \<notin> set tr"
    and "snd (snd (websocket_body s w)) = Some ConnectionClosed \<longleftrightarrow> ws_recv w = RecvClosed"
proof -
  show "fst (websocket_body s w) = s"
    using assms
    by (simp add: websocket_body_def
          split: recv_outcome.splits payload.splits sum.splits prod.splits)
  show "\<exists>tr. fst (snd (websocket_body s w)) = WsRecv # tr \<and> WsConnect \<notin> set tr"
    by (simp add: websocket_body_connected_events [OF assms]
          split: recv_outcome.splits payload.splits sum.splits)
  show "snd (snd (websocket_body s w)) = Some ConnectionClosed \<longleftrightarrow> ws_recv w = RecvClosed"
    by (auto simp: websocket_body_connected_exception [OF assms]
          split: recv_outcome.splits payload.splits sum.splits
          dest: dict_get_exception)
qed

lemma websocket_cycle_eq:
  "websocket_cycle s w =
     (case snd (snd (websocket_body s w)) of
        None \<Rightarrow> (fst (websocket_body s w), fst (snd (websocket_body s w)))
      | Some e \<Rightarrow>
          if e = ConnectionClosed then
            ((fst (websocket_body s w))\<lparr>websocket := None\<rparr>,
             fst (snd (websocket_body s w))
               @ [Log WARNING ''WebSocket connection closed, reconnecting...'' None,
                  AsyncSleep 5])
          else (fst (websocket_body s w),
                fst (snd (websocket_body s w))
                  @ [Log ERROR ''Error in WebSocket loop'' (Some e), AsyncSleep 1]))"
  by (simp add: websocket_cycle_def split: prod.splits option.splits)

lemma websocket_cycle_connected:
  assumes "websocket s = Some c"
  shows "\<exists>tr. snd (websocket_cycle s w) = WsRecv # tr \<and> WsConnect \<notin> set tr"
    and "is_running (fst (websocket_cycle s w)) = is_running s"
    and "websocket (fst (websocket_cycle s w)) = (if ws_recv w = RecvClosed then None else Some c)"
    and "ws_recv w = RecvClosed \<longrightarrow> last (snd (websocket_cycle s w)) = AsyncSleep 5"
proof -
  note b = websocket_body_connected [OF assms, of w]
  from b(2) obtain tr where tr: "fst (snd (websocket_body s w)) = WsRecv # tr"
    and nc: "WsConnect \<notin> set tr" by blast
  show "\<exists>tr. snd (websocket_cycle s w) = WsRecv # tr \<and> WsConnect \<notin> set tr"
    using tr nc by (simp add: websocket_cycle_eq split: option.splits)
  show "is_running (fst (websocket_cycle s w)) = is_running s"
    using b(1) by (simp add: websocket_cycle_eq split: option.splits)
  show "websocket (fst (websocket_cycle s w)) = (if ws_recv w = RecvClosed then None else Some c)"
    using b(1,3) assms by (auto simp: websocket_cycle_eq split: option.splits)
  show "ws_recv w = RecvClosed \<longrightarrow> last (snd (websocket_cycle s w)) = AsyncSleep 5"
    using b(3) by (auto simp: websocket_cycle_eq split: option.splits)
qed

lemma websocket_cycle_backoff:
  assumes "websocket s = None \<longrightarrow> prev = None \<or> prev = Some (AsyncSleep 5)"
  shows "connects_after_backoff prev (snd (websocket_cycle s w))
       \<and> snd (websocket_cycle s w) \<noteq> []
       \<and> (websocket (fst (websocket_cycle s w)) = None
            \<longrightarrow> last (snd (websocket_cycle s w)) = AsyncSleep 5)
       \<and> is_running (fst (websocket_cycle s w)) = is_running s"
proof (cases "websocket s")
  case None
  obtain tr where tr: "snd (connect_websocket s w) = WsConnect # tr" and nc: "WsConnect \<notin> set tr"
    using connect_websocket_shape by blast
  have c: "snd (websocket_cycle s w) = WsConnect # tr @ [AsyncSleep 5]"
    by (simp add: websocket_cycle_disconnected [OF None] tr)
  have "connects_after_backoff (Some WsConnect) (tr @ [AsyncSleep 5])"
    using nc by (intro connects_after_backoff_none) simp
  then have "connects_after_backoff prev (snd (websocket_cycle s w))"
    using assms None by (simp add: c)
  moreover have "is_running (fst (websocket_cycle s w)) = is_running s"
    by (simp add: websocket_cycle_disconnected [OF None])
  ultimately show ?thesis by (simp add: c)
next
  case (Some c)
  note k = websocket_cycle_connected [OF Some, of w]
  from k(1) obtain tr where tr: "snd (websocket_cycle s w) = WsRecv # tr"
    and nc: "WsConnect \<notin> set tr" by blast
  have "WsConnect \<notin> set (WsRecv # tr)" using nc by simp
  then have "connects_after_backoff prev (snd (websocket_cycle s w))"
    unfolding tr by (rule connects_after_backoff_none)
  moreover have "snd (websocket_cycle s w) \<noteq> []" by (simp add: tr)
  moreover have "websocket (fst (websocket_cycle s w)) = None
            \<longrightarrow> last (snd (websocket_cycle s w)) = AsyncSleep 5"
    using k(3,4) by (auto split: if_splits)
  ultimately show ?thesis using k(2) by blast
qed

lemma websocket_loop_backoff:
  assumes "websocket s = None \<longrightarrow> prev = None \<or> prev = Some (AsyncSleep 5)"
  shows "connects_after_backoff prev (fst (snd (websocket_loop s ws)))"
  using assms
proof (induction ws arbitrary: s prev)
  case Nil
  then show ?case by simp
next
  case (Cons w ws)
  show ?case
  proof (cases "is_running s")
    case False
    then show ?thesis by simp
  next
    case True
    let ?s1 = "fst (websocket_cycle s w)" and ?tr1 = "snd (websocket_cycle s w)"
    note c = websocket_cycle_backoff [OF Cons.prems, of w]
    have "connects_after_backoff (Some (last ?tr1)) (fst (snd (websocket_loop ?s1 ws)))"
      using c by (intro Cons.IH) simp
    then have "connects_after_backoff prev (?tr1 @ fst (snd (websocket_loop ?s1 ws)))"
      using c by (simp add: connects_after_backoff_append)
    then show ?thesis using True
      by (cases "websocket_cycle s w"; cases "websocket_loop ?s1 ws") auto
  qed
qed

lemma websocket_loop_count:
  "is_running s \<Longrightarrow>
     snd (snd (websocket_loop s ws)) = length ws \<and> is_running (fst (websocket_loop s ws))"
proof (induction ws arbitrary: s)
  case Nil
  then show ?case by simp
next
  case (Cons w ws)
  have "is_running (fst (websocket_cycle s w))"
    using Cons.prems websocket_cycle_backoff [of s None w] by simp
  from Cons.IH [OF this] Cons.prems show ?case
    by (cases "websocket_cycle s w"; cases "websocket_loop (fst (websocket_cycle s w)) ws") auto
qed


lemma websocket_cycle_closed:
  assumes "websocket s = Some c" and "ws_recv w = RecvClosed"
  shows "websocket_cycle s w =
           (s\<lparr>websocket := None\<rparr>,
            [WsRecv, Log WARNING ''WebSocket connection closed, reconnecting...'' None,
             AsyncSleep 5])"
  using assms by (simp add: websocket_cycle_def websocket_body_def)

lemma websocket_cycle_connect_failed:
  assumes "websocket s = None" and "\<not> ws_connect_ok w"
  shows "websocket_cycle s w =
           (s\<lparr>websocket := None\<rparr>,
            [WsConnect, Log ERROR ''Failed to connect to WebSocket'' (Some ConnectError),
             AsyncSleep 5])"
  using assms by (simp add: websocket_cycle_disconnected connect_websocket_def)

lemma websocket_cycle_offline:
  assumes "\<not> ws_connect_ok w" and "ws_recv w = RecvClosed"
  shows "websocket (fst (websocket_cycle s w)) = None"
  using assms websocket_cycle_closed [of s _ w] websocket_cycle_connect_failed [of s w]
  by (cases "websocket s") auto

lemma websocket_loop_offline:
  assumes "is_running s" and "\<forall>w\<in>set ws. \<not> ws_connect_ok w \<and> ws_recv w = RecvClosed"
  shows "websocket (fst (websocket_loop s ws)) = (if ws = [] then websocket s else None)"
  using assms
proof (induction ws arbitrary: s)
  case Nil
  then show ?case by simp
next
  case (Cons w ws)
  let ?s1 = "fst (websocket_cycle s w)"
  have run: "is_running ?s1"
    using Cons.prems(1) websocket_cycle_backoff [of s None w] by simp
  have off: "websocket ?s1 = None"
    using Cons.prems(2) by (simp add: websocket_cycle_offline)
  have "websocket (fst (websocket_loop ?s1 ws)) = None"
    using Cons.IH [OF run] Cons.prems(2) off by simp
  then show ?case using Cons.prems(1)
    by (cases "websocket_cycle s w"; cases "websocket_loop ?s1 ws") auto
qed

text \<open>
  Claim C6, as the code has it. When the receive of the channel loop finds the connection
  closed, and when a connect attempt fails, the channel is left disconnected and the pass
  ends with a sleep of 5. Any other outcome of a pass on a connected channel, a failed
  send among them, leaves the channel as it was. In every run of the loop, a connect
  attempt either opens the run or directly follows a sleep of 5. A running loop makes
  every pass it is given the world for and is still running afterwards; after passes
  that all fail to connect or find the connection closed, the channel is disconnected.
\<close>

theorem reconnect_backoff:
  "(websocket s = Some c \<and> ws_recv w = RecvClosed \<longrightarrow>
      websocket_cycle s w =
        (s\<lparr>websocket := None\<rparr>,
         [WsRecv, Log WARNING ''WebSocket connection closed, reconnecting...'' None,
          AsyncSleep 5]))
   \<and> (websocket s = None \<and> \<not> ws_connect_ok w \<longrightarrow>
      websocket_cycle s w =
        (s\<lparr>websocket := None\<rparr>,
         [WsConnect, Log ERROR ''Failed to connect to WebSocket'' (Some ConnectError),
          AsyncSleep 5]))
   \<and> (websocket s = Some c \<and> ws_recv w \<noteq> RecvClosed \<longrightarrow>
        websocket (fst (websocket_cycle s w)) = Some c)
   \<and> connects_after_backoff None (fst (snd (websocket_loop s ws)))
   \<and> (is_running s \<longrightarrow>
        snd (snd (websocket_loop s ws)) = length ws \<and> is_running (fst (websocket_loop s ws)))
   \<and> (is_running s \<and> ws \<noteq> [] \<and> (\<forall>w\<in>set ws. \<not> ws_connect_ok w \<and> ws_recv w = RecvClosed) \<longrightarrow>
        websocket (fst (websocket_loop s ws)) = None)"
proof (intro conjI impI)
  assume "websocket s = Some c \<and> ws_recv w = RecvClosed"
  then show "websocket_cycle s w =
        (s\<lparr>websocket := None\<rparr>,
         [WsRecv, Log WARNING ''WebSocket connection closed, reconnecting...'' None,
          AsyncSleep 5])"
    by (simp add: websocket_cycle_closed)
next
  assume "websocket s = None \<and> \<not> ws_connect_ok w"
  then show "websocket_cycle s w =
        (s\<lparr>websocket := None\<rparr>,
         [WsConnect, Log ERROR ''Failed to connect to WebSocket'' (Some ConnectError),
          AsyncSleep 5])"
    by (simp add: websocket_cycle_connect_failed)
next
  assume "websocket s = Some c \<and> ws_recv w \<noteq> RecvClosed"
  then show "websocket (fst (websocket_cycle s w)) = Some c"
    using websocket_cycle_connected(3) [of s c w] by simp
next
  show "connects_after_backoff None (fst (snd (websocket_loop s ws)))"
    by (rule websocket_loop_backoff) simp
next
  assume "is_running s"
  then show "snd (snd (websocket_loop s ws)) = length ws" and "is_running (fst (websocket_loop s ws))"
    using websocket_loop_count by blast+
next
  assume "is_running s \<and> ws \<noteq> [] \<and> (\<forall>w\<in>set ws. \<not> ws_connect_ok w \<and> ws_recv w = RecvClosed)"
  then show "websocket (fst (websocket_loop s ws)) = None"
    using websocket_loop_offline [of s ws] by simp
qed

text \<open>
  Claim C6, as the specification states it, has every send failure take the channel to
  the disconnected state and into the backoff. A status request answered on a channel
  whose send fails is logged and nothing more: the channel stays as it was and the pass
  does not sleep. A notification whose send fails during a scan leaves the channel as it
  was, too.
\<close>

theorem send_failure_counterexample:
  "websocket connected_booth = Some WsConn
   \<and> websocket_cycle connected_booth (stale_channel 0 Unreachable) =
       (connected_booth,
        [WsRecv,
         WsSendFailed (hardware_status connected_booth (stale_channel 0 Unreachable)),
         Log ERROR ''Failed to send hardware status'' (Some ConnectionClosed)])
   \<and> websocket (fst (process_vehicle_scan connected_booth ''VEH_001'' (stale_channel 0 (verdict True))))
       = Some WsConn
   \<and> WsSendFailed (vehicle_detected ''VEH_001'' 0)
       \<in> set (snd (process_vehicle_scan connected_booth ''VEH_001'' (stale_channel 0 (verdict True))))"
  by (simp add: connected_booth_def init_def stale_channel_def booth_def status_request_def
        verdict_def websocket_cycle_def websocket_body_def handle_hardware_command_def
        dict_get_def send_hardware_status_def ws_send_def
        process_vehicle_scan_def report_scan_def on_verdict_def notify_def cooldown_active_def
        set_status_led_def buzz_def Let_def)

theorem reconnect_backoff_witness:
  "websocket connected_booth = Some WsConn \<and> ws_recv (offline 0) = RecvClosed
   \<and> websocket_cycle connected_booth (offline 0) =
        (connected_booth\<lparr>websocket := None\<rparr>,
         [WsRecv, Log WARNING ''WebSocket connection closed, reconnecting...'' None,
          AsyncSleep 5])
   \<and> websocket (connected_booth\<lparr>websocket := None\<rparr>) = None \<and> \<not> ws_connect_ok (offline 5)
   \<and> websocket_cycle (connected_booth\<lparr>websocket := None\<rparr>) (offline 5) =
        (connected_booth\<lparr>websocket := None\<rparr>,
         [WsConnect, Log ERROR ''Failed to connect to WebSocket'' (Some ConnectError),
          AsyncSleep 5])
   \<and> ws_recv (stale_channel 0 Unreachable) \<noteq> RecvClosed
   \<and> websocket (fst (websocket_cycle connected_booth (stale_channel 0 Unreachable))) = Some WsConn
   \<and> is_running connected_booth
   \<and> [offline 0, offline 5, offline 10] \<noteq> []
   \<and> list_all (\<lambda>w. \<not> ws_connect_ok w \<and> ws_recv w = RecvClosed) [offline 0, offline 5, offline 10]
   \<and> connects_after_backoff None
        (fst (snd (websocket_loop connected_booth [offline 0, offline 5, offline 10])))
   \<and> snd (snd (websocket_loop connected_booth [offline 0, offline 5, offline 10])) = 3
   \<and> is_running (fst (websocket_loop connected_booth [offline 0, offline 5, offline 10]))
   \<and> websocket (fst (websocket_loop connected_booth [offline 0, offline 5, offline 10])) = None"
proof -
  let ?ws = "[offline 0, offline 5, offline 10]"
  let ?d = "connected_booth\<lparr>websocket := None\<rparr>"
  note t1 = reconnect_backoff [of connected_booth WsConn "offline 0" ?ws]
  note t2 = reconnect_backoff [of ?d WsConn "offline 5" ?ws]
  note t3 = reconnect_backoff [of connected_booth WsConn "stale_channel 0 Unreachable" ?ws]
  have h1: "websocket connected_booth = Some WsConn" and run: "is_running connected_booth"
    by (simp_all add: connected_booth_def init_def)
  have h2: "ws_recv (offline 0) = RecvClosed" and h4: "\<not> ws_connect_ok (offline 5)"
    by (simp_all add: offline_def booth_def)
  have h3: "websocket ?d = None" by simp
  have h5: "ws_recv (stale_channel 0 Unreachable) \<noteq> RecvClosed"
    by (simp add: stale_channel_def)
  have ne: "?ws \<noteq> []" by simp
  have all: "list_all (\<lambda>w. \<not> ws_connect_ok w \<and> ws_recv w = RecvClosed) ?ws"
    by (simp add: offline_def booth_def)
  then have ball: "\<forall>w\<in>set ?ws. \<not> ws_connect_ok w \<and> ws_recv w = RecvClosed"
    by (simp only: list_all_iff)
  have c1: "websocket_cycle connected_booth (offline 0) =
        (connected_booth\<lparr>websocket := None\<rparr>,
         [WsRecv, Log WARNING ''WebSocket connection closed, reconnecting...'' None,
          AsyncSleep 5])"
    using t1 h1 h2 by blast
  have c2: "websocket_cycle ?d (offline 5) =
        (?d\<lparr>websocket := None\<rparr>,
         [WsConnect, Log ERROR ''Failed to connect to WebSocket'' (Some ConnectError),
          AsyncSleep 5])"
    using t2 h3 h4 by blast
  then have c2': "websocket_cycle ?d (offline 5) =
        (?d,
         [WsConnect, Log ERROR ''Failed to connect to WebSocket'' (Some ConnectError),
          AsyncSleep 5])"
    by simp
  have c3: "websocket (fst (websocket_cycle connected_booth (stale_channel 0 Unreachable))) = Some WsConn"
    using t3 h1 h5 by blast
  have c4: "connects_after_backoff None (fst (snd (websocket_loop connected_booth ?ws)))"
    using t1 by blast
  have "snd (snd (websocket_loop connected_booth ?ws)) = length ?ws
        \<and> is_running (fst (websocket_loop connected_booth ?ws))"
    using t1 run by blast
  then have c5: "snd (snd (websocket_loop connected_booth ?ws)) = 3"
    and c6: "is_running (fst (websocket_loop connected_booth ?ws))"
    by simp_all
  have c7: "websocket (fst (websocket_loop connected_booth ?ws)) = None"
    using t1 run ne ball by blast
  show ?thesis by (intro conjI h1 h2 c1 h3 h4 c2' h5 c3 run ne all c4 c5 c6 c7)
qed

end
